theory Spec2Isabelle
  imports Main "HOL-Library.AList"
begin

section \<open>JavaScript values\<close>

text \<open>
  A JavaScript string is a sequence of UTF-16 code units. It is modelled as a
  \<^typ>\<open>string\<close>, one \<^typ>\<open>char\<close> per code unit, so the model covers the strings whose
  code units are below 256 (ASCII and Latin-1); \<open>length\<close>, \<open>take\<close> and \<open>!\<close> then count
  what \<open>.length\<close>, \<open>.substring\<close> and indexing count. Numbers that identify a tenant are
  integers and are modelled as \<^typ>\<open>int\<close>.
\<close>

definition isDigit :: "char \<Rightarrow> bool" where
  \<comment> \<open>the regular expression class \<open>\d\<close> (without the unicode flag): \<open>0\<close> to \<open>9\<close>\<close>
  "isDigit c = (48 \<le> (of_char c :: nat) \<and> (of_char c :: nat) \<le> 57)"

definition isSpaceJs :: "char \<Rightarrow> bool" where
  \<comment> \<open>the class \<open>\s\<close>, restricted to the code units of the model: TAB, LF, VT, FF, CR,
      SPACE and NO-BREAK SPACE\<close>
  "isSpaceJs c = (c \<in> set [CHR 0x09, CHR 0x0A, CHR 0x0B, CHR 0x0C, CHR 0x0D, CHR 0x20, CHR 0xA0])"

definition digitVal :: "char \<Rightarrow> int" where
  \<comment> \<open>\<open>Number(c)\<close> for a one-character string holding a decimal digit\<close>
  "digitVal c = int (of_char c) - 48"

definition startsWith :: "string \<Rightarrow> string \<Rightarrow> bool" where
  "startsWith s p = (take (length p) s = p)"

definition endsWith :: "string \<Rightarrow> string \<Rightarrow> bool" where
  "endsWith s p = (length p \<le> length s \<and> drop (length s - length p) s = p)"

fun strIncludes :: "string \<Rightarrow> string \<Rightarrow> bool" where
  "strIncludes [] p = (p = [])"
| "strIncludes (c # cs) p = (startsWith (c # cs) p \<or> strIncludes cs p)"



definition digitChar :: "nat \<Rightarrow> char" where
  \<comment> \<open>the character of a digit \<open>d < 10\<close>\<close>
  "digitChar d = ''0123456789'' ! d"

fun natDigits :: "nat \<Rightarrow> string" where
  "natDigits n = (if n < 10 then [digitChar n] else natDigits (n div 10) @ [digitChar (n mod 10)])"

declare natDigits.simps [simp del]

definition showInt :: "int \<Rightarrow> string" where
  \<comment> \<open>\<open>String(n)\<close>, \<open>n.toString()\<close> and \<open>`${n}`\<close> for an integer \<open>n\<close>: decimal notation
      (what JavaScript prints for an integer below 1e21 in magnitude)\<close>
  "showInt i = (if i < 0 then CHR ''-'' # natDigits (nat (- i)) else natDigits (nat i))"

datatype jsval =
    JUndefined
  | JNull
  | JBool bool
  | JNum int
  | JStr string
  | JArr "jsval list"
  | JObj "(string \<times> jsval) list"

text \<open>
  The values a JSON or XML parser returns. An object is the list of its properties; the
  first entry of a name is the property. The names the code reads are never those of a
  built-in property, so a read on a string, a number, a boolean or an array gives
  \<open>undefined\<close>. Numbers are integers here: fractions, infinities and \<open>NaN\<close> are outside
  the model.
\<close>

fun truthy :: "jsval \<Rightarrow> bool" where
  "truthy JUndefined = False"
| "truthy JNull = False"
| "truthy (JBool b) = b"
| "truthy (JNum n) = (n \<noteq> 0)"
| "truthy (JStr s) = (s \<noteq> [])"
| "truthy (JArr xs) = True"
| "truthy (JObj kvs) = True"

definition jsOr :: "jsval \<Rightarrow> jsval \<Rightarrow> jsval" where
  \<comment> \<open>\<open>a || b\<close>\<close>
  "jsOr a b = (if truthy a then a else b)"

fun getProp :: "jsval \<Rightarrow> string \<Rightarrow> jsval" where
  \<comment> \<open>\<open>v[k]\<close> on a value that is neither \<open>undefined\<close> nor \<open>null\<close>, and \<open>v?.[k]\<close> on any value\<close>
  "getProp (JObj kvs) k = (case map_of kvs k of Some v \<Rightarrow> v | None \<Rightarrow> JUndefined)"
| "getProp v k = JUndefined"

fun nullish :: "jsval \<Rightarrow> bool" where
  "nullish JUndefined = True"
| "nullish JNull = True"
| "nullish v = False"

datatype date = Date int | InvalidDate

text \<open>
  A \<open>Date\<close> object: its time value in milliseconds since the epoch, or \<open>Invalid Date\<close> (time
  value \<open>NaN\<close>). Time values are unbounded integers: the range limit of \<open>Date\<close> (plus or minus
  8.64e15 ms) is not part of the model.
\<close>

fun dateGt :: "date \<Rightarrow> int \<Rightarrow> bool" where
  \<comment> \<open>\<open>d > now\<close> for a \<open>Date\<close> \<open>d\<close> and the valid \<open>Date\<close> of time value \<open>now\<close>; a comparison with
      \<open>NaN\<close> is false\<close>
  "dateGt (Date t) now = (t > now)"
| "dateGt InvalidDate now = False"

section \<open>Errors\<close>

text \<open>
  Every \<open>throw\<close> of the source is a value of \<open>err\<close>; a function that can throw returns
  \<open>err + 'a\<close>, with \<open>Inl\<close> for the exception. The constructors stand for the messages of
  the source (accents dropped here):
  \<^item> \<open>NoCertificateFound b\<close>: "No certificate found for business b";
  \<^item> \<open>AfipTicketYaCacheado\<close>: "AFIP ya tiene un ticket valido cacheado en su servidor.
    Expirara en maximo 12 horas desde su creacion.";
  \<^item> \<open>WsaaHttpError status statusText\<close>: "AFIP WSAA HTTP error: status - statusText";
  \<^item> \<open>InvalidSoapStructure\<close>: "Invalid SOAP response structure";
  \<^item> \<open>WsaaFault faultString\<close>: "AFIP WSAA Fault: faultString";
  \<^item> \<open>CertificadoNoConfiable\<close>: "Certificado no confiable. Posibles causas: ...";
  \<^item> \<open>CertificadoExpirado\<close>: "Certificado expirado. Debes generar un nuevo CSR ...";
  \<^item> \<open>NoLoginCmsResponse\<close>, \<open>NoLoginCmsReturn\<close>, \<open>NoCredentials\<close>, \<open>MissingTokenSignExpiration\<close>:
    the four messages of \<open>parseResponse\<close> about a missing part of the answer;
  \<^item> \<open>PfxSinCertificadoOClave\<close>: "No se pudo extraer el certificado o la clave privada del
    archivo PFX"; \<open>PfxInvalido\<close>: "Certificado o clave privada invalidos";
  \<^item> \<open>CertificadoIlegible\<close>: "No se pudo leer el certificado. ...";
    \<open>ClaveIlegible\<close>: "No se pudo leer la clave privada. ...";
  \<^item> \<open>CuitNoEncontrado\<close>: "No se pudo extraer el CUIT del certificado. ...";
    \<open>CuitProporcionadoInvalido\<close>: "El CUIT proporcionado debe tener 11 digitos.";
  \<^item> \<open>TypeError\<close>, \<open>RangeError\<close>: raised by the language itself;
  \<^item> \<open>LibError m\<close>: an exception of message \<open>m\<close> raised by the file system, by
    \<open>JSON.parse\<close> or by a library (node-forge, axios, fast-xml-parser).
\<close>

datatype err =
    NoCertificateFound int
  | AfipTicketYaCacheado
  | WsaaHttpError int string
  | InvalidSoapStructure
  | WsaaFault jsval
  | CertificadoNoConfiable
  | CertificadoExpirado
  | NoLoginCmsResponse
  | NoLoginCmsReturn
  | NoCredentials
  | MissingTokenSignExpiration
  | PfxSinCertificadoOClave
  | PfxInvalido
  | CertificadoIlegible
  | ClaveIlegible
  | CuitNoEncontrado
  | CuitProporcionadoInvalido
  | TypeError
  | RangeError
  | LibError string

fun jsIncludes :: "jsval \<Rightarrow> string \<Rightarrow> err + bool" where
  \<comment> \<open>\<open>v.includes(p)\<close>: a substring test on a string, a membership test on an array, a
      \<open>TypeError\<close> (not a function) on anything else\<close>
  "jsIncludes (JStr s) p = Inr (strIncludes s p)"
| "jsIncludes (JArr xs) p = Inr (JStr p \<in> set xs)"
| "jsIncludes v p = Inl TypeError"

section \<open>Data model\<close>

record ticket =
  token :: jsval
  sign :: jsval
  expirationTime :: date

record certInfo =
  businessId :: int
  cuit :: jsval
  certPath :: string
  keyPath :: string
  password :: jsval
  validFrom :: "date option"
  validTo :: "date option"

text \<open>
  \<open>TicketAcceso\<close> and \<open>CertificateInfo\<close> of \<open>afip.types\<close>. \<open>token\<close>, \<open>sign\<close>, \<open>cuit\<close> and
  \<open>password\<close> are declared strings but come unchecked out of a parser, so they are
  \<open>jsval\<close>; an optional \<open>Date\<close> is a \<open>date option\<close>, \<open>None\<close> for \<open>undefined\<close>.
\<close>

record attr =
  aname :: "string option"
  shortName :: "string option"
  avalue :: string

record certificate =
  subject :: "attr list"
  issuer :: "attr list"
  notBefore :: date
  notAfter :: date

text \<open>
  What the code reads of a node-forge certificate: the attributes of the subject and of
  the issuer (\<open>name\<close>, \<open>shortName\<close>, \<open>value\<close>) and the validity dates. A private key is
  opaque and stands here as the string that identifies it.
\<close>

type_synonym privateKey = string

record p12 =
  certBags :: "certificate option list"
  keyBags :: "privateKey option list"

text \<open>
  A decoded PKCS#12 container: the certificate bags and the shrouded key bags, each
  holding its certificate or key, or nothing (\<open>bag.cert\<close> or \<open>bag.key\<close> undefined).
\<close>

datatype axios_result =
    AxiosResponse jsval
  | AxiosHttpError int string jsval
  | AxiosFailure string

text \<open>
  The three outcomes of \<open>axios.post\<close>: a response (its \<open>data\<close>); a rejection that carries
  \<open>error.response\<close> (\<open>status\<close>, \<open>statusText\<close>, \<open>data\<close>), as for a status outside 2xx; a
  rejection without a response (network failure, timeout), with its message.
\<close>

datatype event =
    EvRead string
  | EvPost string
  | EvLookup int bool
  | EvLog err

text \<open>
  The trace of a run, for the claims that count calls: \<open>EvRead p\<close> for each
  \<open>fs.readFileSync(p)\<close>, \<open>EvPost body\<close> for each \<open>axios.post\<close> to the authority,
  \<open>EvLookup b found\<close> for each call of the ticket service to
  \<open>certificateService.getCertificateInfo(b)\<close> with whether it returned a certificate, and
  \<open>EvLog e\<close> for each \<open>logger.error\<close> or \<open>logger.warn\<close> of a catch block that logs the
  message of the exception \<open>e\<close> it caught. The other log lines are not modelled.
\<close>

record world =
  ticketCache :: "(string \<times> ticket) list"
  certsCache :: "(int \<times> certInfo) list"
  files :: "(string \<times> string) list"
  dirs :: "string list"
  tick :: nat
  trace :: "event list"

text \<open>
  The state: the two in-process caches (a JavaScript \<open>Map\<close> keeps insertion order, so each
  is an association list with \<open>AList.update\<close> for \<open>set\<close> and \<open>AList.delete\<close> for \<open>delete\<close>),
  the regular files (path and content, in directory order) and the directories of the
  file system, the number of clock readings so far, and the trace.
\<close>

record env =
  clock :: "nat \<Rightarrow> int"
  cacheDir :: string
  certsPath :: string
  wsaaUrl :: string
  readFails :: "string \<Rightarrow> bool"
  writeFails :: "string \<Rightarrow> bool"
  unlinkFails :: "string \<Rightarrow> bool"
  mkdirFails :: "string \<Rightarrow> bool"
  jsonParse :: "string \<Rightarrow> jsval option"
  jsonStringify :: "jsval \<Rightarrow> string option"
  dateOf :: "jsval \<Rightarrow> date"
  toISOString :: "int \<Rightarrow> string"
  xmlParse :: "jsval \<Rightarrow> err + jsval"
  buildTRA :: "string \<Rightarrow> string \<Rightarrow> string \<Rightarrow> string \<Rightarrow> string"
  signCms :: "string \<Rightarrow> certificate \<Rightarrow> privateKey \<Rightarrow> int \<Rightarrow> err + string"
  axiosPost :: "string \<Rightarrow> string \<Rightarrow> axios_result"
  certificateFromPem :: "string \<Rightarrow> err + certificate"
  certificateFromDer :: "string \<Rightarrow> err + certificate"
  certificateToPem :: "certificate \<Rightarrow> err + string"
  privateKeyFromPem :: "string \<Rightarrow> err + privateKey"
  privateKeyToPem :: "privateKey \<Rightarrow> err + string"
  pkcs12FromDer :: "string \<Rightarrow> string \<Rightarrow> err + p12"
  toPkcs12Der :: "privateKey \<Rightarrow> certificate \<Rightarrow> string \<Rightarrow> err + string"
  generateKeyPair :: "nat \<Rightarrow> err + privateKey"
  getField :: "attr list \<Rightarrow> string \<Rightarrow> attr option"

text \<open>
  What the code takes from outside the repository, as parameters of the model: the clock
  (the \<open>n\<close>-th \<open>new Date()\<close> of a run reads \<open>clock n\<close>), the configured paths and URL, the
  failures of the file system (per path), \<open>JSON.parse\<close> (\<open>None\<close> for a \<open>SyntaxError\<close>),
  \<open>JSON.stringify\<close> (\<open>None\<close> for \<open>undefined\<close>), \<open>new Date(v)\<close>, \<open>Date.toISOString\<close> on a valid
  date, the XML parser and builder, the CMS signature, the HTTP client and node-forge
  (parsing and encoding of certificates, keys and PKCS#12 containers, key generation,
  and \<open>subject.getField\<close>). A theorem quantified over \<open>env\<close> holds whatever these return.
\<close>

section \<open>Clock, paths and the file system\<close>

text \<open>
  The file system is the list of its regular files, by full path, and the list of its
  directories. A call of \<open>fs\<close> fails when the environment says so for the path, or when
  the state leaves it no choice (reading or deleting what is not a regular file, listing
  what is not a directory); \<open>fs.existsSync\<close> never fails.
\<close>

definition newDate :: "env \<Rightarrow> world \<Rightarrow> int \<times> world" where
  \<comment> \<open>\<open>new Date()\<close>\<close>
  "newDate e w = (clock e (tick w), w\<lparr>tick := Suc (tick w)\<rparr>)"

definition logErr :: "err \<Rightarrow> world \<Rightarrow> world" where
  "logErr x w = w\<lparr>trace := trace w @ [EvLog x]\<rparr>"

definition pathJoin :: "string \<Rightarrow> string \<Rightarrow> string" where
  \<comment> \<open>\<open>path.join(a, b)\<close> for a normalized directory \<open>a\<close> and a name \<open>b\<close>; the normalization that
      \<open>path.join\<close> applies to separators and dot segments inside \<open>b\<close> is not modelled\<close>
  "pathJoin a b = a @ ''/'' @ b"

definition existsSync :: "world \<Rightarrow> string \<Rightarrow> bool" where
  "existsSync w p = (p \<in> set (map fst (files w)) \<or> p \<in> set (dirs w))"

definition readFileSync :: "env \<Rightarrow> world \<Rightarrow> string \<Rightarrow> (err + string) \<times> world" where
  "readFileSync e w p =
    (let w1 = w\<lparr>trace := trace w @ [EvRead p]\<rparr> in
     if readFails e p then (Inl (LibError ''EIO''), w1)
     else case map_of (files w) p of
            None \<Rightarrow> (Inl (LibError ''ENOENT''), w1)
          | Some content \<Rightarrow> (Inr content, w1))"

definition writeFileSync :: "env \<Rightarrow> world \<Rightarrow> string \<Rightarrow> string \<Rightarrow> (err + unit) \<times> world" where
  "writeFileSync e w p content =
    (if writeFails e p then (Inl (LibError ''EIO''), w)
     else (Inr (), w\<lparr>files := AList.update p content (files w)\<rparr>))"

definition unlinkSync :: "env \<Rightarrow> world \<Rightarrow> string \<Rightarrow> (err + unit) \<times> world" where
  "unlinkSync e w p =
    (if unlinkFails e p then (Inl (LibError ''EPERM''), w)
     else if p \<notin> set (map fst (files w)) then (Inl (LibError ''ENOENT''), w)
     else (Inr (), w\<lparr>files := AList.delete p (files w)\<rparr>))"

definition mkdirSync :: "env \<Rightarrow> world \<Rightarrow> string \<Rightarrow> (err + unit) \<times> world" where
  \<comment> \<open>\<open>fs.mkdirSync(d, { recursive: true })\<close>; the ancestors it creates are not tracked\<close>
  "mkdirSync e w d =
    (if mkdirFails e d then (Inl (LibError ''EACCES''), w)
     else (Inr (), w\<lparr>dirs := (if d \<in> set (dirs w) then dirs w else dirs w @ [d])\<rparr>))"

definition childName :: "string \<Rightarrow> string \<Rightarrow> string option" where
  "childName d p =
    (let pre = d @ ''/''; n = drop (length pre) p in
     if startsWith p pre \<and> n \<noteq> [] \<and> CHR ''/'' \<notin> set n then Some n else None)"

definition readdirSync :: "env \<Rightarrow> world \<Rightarrow> string \<Rightarrow> err + string list" where
  \<comment> \<open>the names of the files and directories directly in \<open>d\<close>\<close>
  "readdirSync e w d =
    (if readFails e d then Inl (LibError ''EIO'')
     else if d \<notin> set (dirs w) then Inl (LibError ''ENOTDIR'')
     else Inr (List.map_filter (childName d) (map fst (files w) @ dirs w)))"

section \<open>certificate.service.ts: lookup\<close>

definition certDirOf :: "env \<Rightarrow> int \<Rightarrow> string" where
  "certDirOf e b = pathJoin (certsPath e) (showInt b)"

definition optDate :: "env \<Rightarrow> jsval \<Rightarrow> date option" where
  \<comment> \<open>\<open>v ? new Date(v) : undefined\<close>\<close>
  "optDate e v = (if truthy v then Some (dateOf e v) else None)"

definition getCertificateInfo_load :: "env \<Rightarrow> world \<Rightarrow> int \<Rightarrow> (err + certInfo option) \<times> world" where
  \<comment> \<open>lines 30 to 59: read the persisted files and fill the cache\<close>
  "getCertificateInfo_load e w b =
    (let certDir = certDirOf e b; infoPath = pathJoin certDir ''info.json'' in
     if \<not> existsSync w infoPath then (Inr None, w)
     else case readFileSync e w infoPath of
       (Inl x, w1) \<Rightarrow> (Inl x, w1)
     | (Inr content, w1) \<Rightarrow>
        (case jsonParse e content of
           None \<Rightarrow> (Inl (LibError ''SyntaxError''), w1)
         | Some infoData \<Rightarrow>
            if nullish infoData then (Inl TypeError, w1)
            else
              let info = \<lparr>businessId = b,
                          cuit = getProp infoData ''cuit'',
                          certPath = pathJoin certDir ''cert.pem'',
                          keyPath = pathJoin certDir ''key.pem'',
                          password = getProp infoData ''password'',
                          validFrom = optDate e (getProp infoData ''validFrom''),
                          validTo = optDate e (getProp infoData ''validTo'')\<rparr>
              in if \<not> existsSync w1 (certPath info) \<or> \<not> existsSync w1 (keyPath info)
                 then (Inr None, w1)
                 else (Inr (Some info), w1\<lparr>certsCache := AList.update b info (certsCache w1)\<rparr>)))"

definition getCertificateInfo_try :: "env \<Rightarrow> world \<Rightarrow> int \<Rightarrow> (err + certInfo option) \<times> world" where
  \<comment> \<open>the body of the \<open>try\<close>: \<open>new Date()\<close> is read only when the cached \<open>validTo\<close> is defined\<close>
  "getCertificateInfo_try e w b =
    (case map_of (certsCache w) b of
       None \<Rightarrow> getCertificateInfo_load e w b
     | Some cached \<Rightarrow>
        (case validTo cached of
           None \<Rightarrow> getCertificateInfo_load e (w\<lparr>certsCache := AList.delete b (certsCache w)\<rparr>) b
         | Some d \<Rightarrow>
            (case newDate e w of (now, w1) \<Rightarrow>
               if dateGt d now then (Inr (Some cached), w1)
               else getCertificateInfo_load e (w1\<lparr>certsCache := AList.delete b (certsCache w1)\<rparr>) b)))"

definition getCertificateInfo :: "env \<Rightarrow> world \<Rightarrow> int \<Rightarrow> (err + certInfo option) \<times> world" where
  \<comment> \<open>\<open>Inl\<close> would be an exception that leaves the function (a rejected promise)\<close>
  "getCertificateInfo e w b =
    (case getCertificateInfo_try e w b of
       (Inl x, w1) \<Rightarrow> (Inr None, logErr x w1)
     | (Inr r, w1) \<Rightarrow> (Inr r, w1))"

definition readCertificate :: "env \<Rightarrow> world \<Rightarrow> string \<Rightarrow> (err + string) \<times> world" where
  "readCertificate e w p = readFileSync e w p"

definition readPrivateKey :: "env \<Rightarrow> world \<Rightarrow> string \<Rightarrow> (err + string) \<times> world" where
  "readPrivateKey e w p = readFileSync e w p"

section \<open>wsaa.service.ts: the ticket service\<close>

definition cacheKeyOf :: "int \<Rightarrow> string \<Rightarrow> string" where
  \<comment> \<open>\<open>`${businessId}_${service}`\<close>\<close>
  "cacheKeyOf b service = showInt b @ ''_'' @ service"

definition cacheFileOf :: "env \<Rightarrow> string \<Rightarrow> string" where
  \<comment> \<open>\<open>path.join(this.cacheDir, `ta_${cacheKey}.json`)\<close>\<close>
  "cacheFileOf e cacheKey = pathJoin (cacheDir e) (''ta_'' @ cacheKey @ ''.json'')"

definition isTicketValid :: "env \<Rightarrow> world \<Rightarrow> ticket \<Rightarrow> bool \<times> world" where
  "isTicketValid e w t =
    (case newDate e w of (now, w1) \<Rightarrow>
       (case expirationTime t of
          Date x \<Rightarrow> (x - 5 * 60 * 1000 > now, w1)
        | InvalidDate \<Rightarrow> (False, w1)))"

definition generateTRA :: "env \<Rightarrow> world \<Rightarrow> string \<Rightarrow> string \<times> world" where
  "generateTRA e w service =
    (case newDate e w of (now, w1) \<Rightarrow>
       let uniqueId = now div 1000;
           generationTime = toISOString e now;
           expiration = toISOString e (now + 12 * 60 * 60 * 1000)
       in (buildTRA e (showInt uniqueId) generationTime expiration service, w1))"

definition signTRA_try :: "env \<Rightarrow> world \<Rightarrow> string \<Rightarrow> string \<Rightarrow> string \<Rightarrow> (err + string) \<times> world" where
  "signTRA_try e w tra certFile keyFile =
    (case readCertificate e w certFile of
       (Inl x, w1) \<Rightarrow> (Inl x, w1)
     | (Inr certPem, w1) \<Rightarrow>
        (case readPrivateKey e w1 keyFile of
           (Inl x, w2) \<Rightarrow> (Inl x, w2)
         | (Inr keyPem, w2) \<Rightarrow>
            (case certificateFromPem e certPem of
               Inl x \<Rightarrow> (Inl x, w2)
             | Inr cert \<Rightarrow>
                (case privateKeyFromPem e keyPem of
                   Inl x \<Rightarrow> (Inl x, w2)
                 | Inr privateKey \<Rightarrow>
                    (case newDate e w2 of (signingTime, w3) \<Rightarrow>
                       (signCms e tra cert privateKey signingTime, w3))))))"

definition signTRA :: "env \<Rightarrow> world \<Rightarrow> string \<Rightarrow> string \<Rightarrow> string \<Rightarrow> (err + string) \<times> world" where
  \<comment> \<open>the catch block logs and throws the exception again\<close>
  "signTRA e w tra certFile keyFile =
    (case signTRA_try e w tra certFile keyFile of
       (Inl x, w1) \<Rightarrow> (Inl x, logErr x w1)
     | (Inr cms, w1) \<Rightarrow> (Inr cms, w1))"

definition soapRequestOf :: "string \<Rightarrow> string" where
  "soapRequestOf cms =
    ''<?xml version='' @ [CHR 0x22] @ ''1.0'' @ [CHR 0x22] @ '' encoding='' @ [CHR 0x22] @ ''UTF-8''
      @ [CHR 0x22] @ ''?>'' @ [CHR 0x0A]
    @ ''<soapenv:Envelope xmlns:soapenv='' @ [CHR 0x22] @ ''http://schemas.xmlsoap.org/soap/envelope/''
      @ [CHR 0x22] @ '' xmlns:wsaa='' @ [CHR 0x22] @ ''http://wsaa.view.sua.dvadac.desein.afip.gov''
      @ [CHR 0x22] @ ''>'' @ [CHR 0x0A]
    @ ''  <soapenv:Header/>'' @ [CHR 0x0A]
    @ ''  <soapenv:Body>'' @ [CHR 0x0A]
    @ ''    <wsaa:loginCms>'' @ [CHR 0x0A]
    @ ''      <wsaa:in0>'' @ cms @ ''</wsaa:in0>'' @ [CHR 0x0A]
    @ ''    </wsaa:loginCms>'' @ [CHR 0x0A]
    @ ''  </soapenv:Body>'' @ [CHR 0x0A]
    @ ''</soapenv:Envelope>''"

definition responseDataOf :: "env \<Rightarrow> jsval \<Rightarrow> err + string" where
  \<comment> \<open>lines 267 to 270: the first 1000 characters of the body of the error response\<close>
  "responseDataOf e d =
    (case d of
       JStr s \<Rightarrow> Inr (take 1000 s)
     | _ \<Rightarrow> (case jsonStringify e d of None \<Rightarrow> Inl TypeError | Some s \<Rightarrow> Inr (take 1000 s)))"

definition sendToAFIP :: "env \<Rightarrow> world \<Rightarrow> string \<Rightarrow> (err + jsval) \<times> world" where
  "sendToAFIP e w cms =
    (let soapRequest = soapRequestOf cms;
         w1 = w\<lparr>trace := trace w @ [EvPost soapRequest]\<rparr>
     in case axiosPost e (wsaaUrl e) soapRequest of
          AxiosResponse d \<Rightarrow> (Inr d, w1)
        | AxiosHttpError status statusText d \<Rightarrow>
           (case responseDataOf e d of
              Inl x \<Rightarrow> (Inl x, w1)
            | Inr responseData \<Rightarrow>
               if strIncludes responseData ''alreadyAuthenticated'' \<or>
                  strIncludes responseData ''ya posee un TA valido''
               then (Inl AfipTicketYaCacheado, w1)
               else (Inl (WsaaHttpError status statusText), w1))
        | AxiosFailure m \<Rightarrow> (Inl (LibError m), w1))"

definition getPropE :: "jsval \<Rightarrow> string \<Rightarrow> err + jsval" where
  \<comment> \<open>\<open>v[k]\<close> on any value: a \<open>TypeError\<close> on \<open>undefined\<close> and \<open>null\<close>\<close>
  "getPropE v k = (if nullish v then Inl TypeError else Inr (getProp v k))"

definition classifyFault :: "jsval \<Rightarrow> err" where
  \<comment> \<open>lines 327 to 352: the exception thrown for a SOAP fault\<close>
  "classifyFault fault =
    (let faultCode = jsOr (getProp fault ''faultcode'') (jsOr (getProp fault ''faultcode'') (JStr ''''));
         faultString = jsOr (getProp fault ''faultstring'')
                         (jsOr (getProp fault ''faultstring'') (JStr ''Unknown error''))
     in case jsIncludes faultCode ''cms.cert.untrusted'' of
          Inl x \<Rightarrow> x
        | Inr True \<Rightarrow> CertificadoNoConfiable
        | Inr False \<Rightarrow>
           (case jsIncludes faultString ''Certificado no emitido'' of
              Inl x \<Rightarrow> x
            | Inr True \<Rightarrow> CertificadoNoConfiable
            | Inr False \<Rightarrow>
               (case jsIncludes faultString ''expired'' of
                  Inl x \<Rightarrow> x
                | Inr True \<Rightarrow> CertificadoExpirado
                | Inr False \<Rightarrow>
                   (case jsIncludes faultString ''expirado'' of
                      Inl x \<Rightarrow> x
                    | Inr True \<Rightarrow> CertificadoExpirado
                    | Inr False \<Rightarrow> WsaaFault faultString))))"

definition parseTicket :: "env \<Rightarrow> jsval \<Rightarrow> err + ticket" where
  \<comment> \<open>lines 357 to 388: from \<open>loginCmsResponse\<close> to the ticket\<close>
  "parseTicket e loginResponse =
    (let loginReturn = jsOr (getProp loginResponse ''loginCmsReturn'')
                            (getProp loginResponse ''ns1:loginCmsReturn'')
     in if \<not> truthy loginReturn then Inl NoLoginCmsReturn
        else
          let taXml = (case loginReturn of
                         JStr s \<Rightarrow> loginReturn
                       | _ \<Rightarrow> jsOr (getProp loginReturn ''#text'') loginReturn)
          in case xmlParse e taXml of
               Inl x \<Rightarrow> Inl x
             | Inr taResult \<Rightarrow>
                (case getPropE taResult ''loginTicketResponse'' of
                   Inl x \<Rightarrow> Inl x
                 | Inr ltr \<Rightarrow>
                    let credentials = getProp ltr ''credentials'' in
                    if \<not> truthy credentials then Inl NoCredentials
                    else
                      let tok = getProp credentials ''token'';
                          sgn = getProp credentials ''sign'';
                          expirationTimeStr = getProp (getProp ltr ''header'') ''expirationTime''
                      in if \<not> truthy tok \<or> \<not> truthy sgn \<or> \<not> truthy expirationTimeStr
                         then Inl MissingTokenSignExpiration
                         else Inr \<lparr>token = tok, sign = sgn,
                                   expirationTime = dateOf e expirationTimeStr\<rparr>))"

definition parseResponse_try :: "env \<Rightarrow> jsval \<Rightarrow> err + ticket" where
  "parseResponse_try e xmlResponse =
    (case xmlResponse of
       JStr s \<Rightarrow>
        (case xmlParse e xmlResponse of
           Inl x \<Rightarrow> Inl x
         | Inr result \<Rightarrow>
            if nullish result then Inl TypeError
            else
              let body = jsOr (getProp (getProp result ''soap:Envelope'') '' soap:Body'')
                          (jsOr (getProp (getProp result ''soapenv:Envelope'') ''soapenv:Body'')
                                (getProp (getProp result ''env:Envelope'') ''env:Body''))
              in if \<not> truthy body then Inl InvalidSoapStructure
                 else
                   let loginResponse = jsOr (getProp body ''loginCmsResponse'')
                                            (getProp body ''ns1:loginCmsResponse'')
                   in if \<not> truthy loginResponse then
                        (let fault = jsOr (getProp body ''soap:Fault'')
                                      (jsOr (getProp body ''soapenv:Fault'') (getProp body ''env:Fault''))
                         in if truthy fault then Inl (classifyFault fault)
                            else Inl NoLoginCmsResponse)
                      else parseTicket e loginResponse)
     | _ \<Rightarrow> Inl TypeError)"

definition parseResponse :: "env \<Rightarrow> world \<Rightarrow> jsval \<Rightarrow> (err + ticket) \<times> world" where
  \<comment> \<open>the catch block logs and throws the exception again\<close>
  "parseResponse e w xmlResponse =
    (case parseResponse_try e xmlResponse of
       Inl x \<Rightarrow> (Inl x, logErr x w)
     | Inr t \<Rightarrow> (Inr t, w))"

definition requestTicketAcceso_try :: "env \<Rightarrow> world \<Rightarrow> int \<Rightarrow> string \<Rightarrow> (err + ticket) \<times> world" where
  "requestTicketAcceso_try e w b service =
    (case getCertificateInfo e w b of
       (Inl x, w1) \<Rightarrow> (Inl x, w1)
     | (Inr None, w1) \<Rightarrow>
        (Inl (NoCertificateFound b), w1\<lparr>trace := trace w1 @ [EvLookup b False]\<rparr>)
     | (Inr (Some info), w0) \<Rightarrow>
        (let w1 = w0\<lparr>trace := trace w0 @ [EvLookup b True]\<rparr> in
         case generateTRA e w1 service of (tra, w2) \<Rightarrow>
          (case signTRA e w2 tra (certPath info) (keyPath info) of
             (Inl x, w3) \<Rightarrow> (Inl x, w3)
           | (Inr cms, w3) \<Rightarrow>
              (case sendToAFIP e w3 cms of
                 (Inl x, w4) \<Rightarrow> (Inl x, w4)
               | (Inr response, w4) \<Rightarrow>
                  (case parseResponse e w4 response of
                     (Inl x, w5) \<Rightarrow> (Inl x, w5)
                   | (Inr t, w5) \<Rightarrow>
                      (case expirationTime t of
                         InvalidDate \<Rightarrow> (Inl RangeError, w5)
                       | Date x \<Rightarrow> (Inr t, w5)))))))"

definition requestTicketAcceso :: "env \<Rightarrow> world \<Rightarrow> int \<Rightarrow> string \<Rightarrow> (err + ticket option) \<times> world" where
  "requestTicketAcceso e w b service =
    (case requestTicketAcceso_try e w b service of
       (Inl x, w1) \<Rightarrow> (Inr None, logErr x w1)
     | (Inr t, w1) \<Rightarrow> (Inr (Some t), w1))"

definition reviveTicket :: "env \<Rightarrow> jsval \<Rightarrow> err + ticket" where
  \<comment> \<open>lines 50 to 54: the parsed cache file with its dates rebuilt. Assigning a property
      to \<open>null\<close> or to a primitive value is a \<open>TypeError\<close> (the module is strict code); of the
      properties of the object, the model keeps the three of \<open>TicketAcceso\<close>\<close>
  "reviveTicket e cached =
    (case cached of
       JObj kvs \<Rightarrow> Inr \<lparr>token = getProp cached ''token'', sign = getProp cached ''sign'',
                         expirationTime = dateOf e (getProp cached ''expirationTime'')\<rparr>
     | JArr xs \<Rightarrow> Inr \<lparr>token = JUndefined, sign = JUndefined, expirationTime = dateOf e JUndefined\<rparr>
     | _ \<Rightarrow> Inl TypeError)"

definition getTicketAcceso_memory :: "env \<Rightarrow> world \<Rightarrow> string \<Rightarrow> ticket option \<times> world" where
  \<comment> \<open>lines 32 to 44: the cache in memory. \<open>Some\<close> is the return at line 39\<close>
  "getTicketAcceso_memory e w cacheKey =
    (case map_of (ticketCache w) cacheKey of
       None \<Rightarrow> (None, w)
     | Some cached \<Rightarrow>
        (case isTicketValid e w cached of (valid, w1) \<Rightarrow>
           if valid then (Some cached, w1)
           else (None, w1\<lparr>ticketCache := AList.delete cacheKey (ticketCache w1)\<rparr>)))"

definition getTicketAcceso_diskTry :: "env \<Rightarrow> world \<Rightarrow> string \<Rightarrow> string \<Rightarrow> (err + ticket option) \<times> world" where
  \<comment> \<open>lines 49 to 67: the body of the inner \<open>try\<close>\<close>
  "getTicketAcceso_diskTry e w cacheKey cacheFile =
    (case readFileSync e w cacheFile of
       (Inl x, w1) \<Rightarrow> (Inl x, w1)
     | (Inr fileContent, w1) \<Rightarrow>
        (case jsonParse e fileContent of
           None \<Rightarrow> (Inl (LibError ''SyntaxError''), w1)
         | Some parsed \<Rightarrow>
            (case reviveTicket e parsed of
               Inl x \<Rightarrow> (Inl x, w1)
             | Inr cached \<Rightarrow>
                (case isTicketValid e w1 cached of (valid, w2) \<Rightarrow>
                   if valid
                   then (Inr (Some cached),
                         w2\<lparr>ticketCache := AList.update cacheKey cached (ticketCache w2)\<rparr>)
                   else (case unlinkSync e w2 cacheFile of
                           (Inl x, w3) \<Rightarrow> (Inl x, w3)
                         | (Inr u, w3) \<Rightarrow> (Inr None, w3))))))"

definition getTicketAcceso_disk :: "env \<Rightarrow> world \<Rightarrow> string \<Rightarrow> string \<Rightarrow> ticket option \<times> world" where
  \<comment> \<open>lines 46 to 72: the cache on disk. \<open>Some\<close> is the return at line 62; the catch block
      logs a warning and the function goes on\<close>
  "getTicketAcceso_disk e w cacheKey cacheFile =
    (if existsSync w cacheFile then
       (case getTicketAcceso_diskTry e w cacheKey cacheFile of
          (Inl x, w1) \<Rightarrow> (None, logErr x w1)
        | (Inr r, w1) \<Rightarrow> (r, w1))
     else (None, w))"

definition ticketJson :: "env \<Rightarrow> ticket \<Rightarrow> jsval" where
  \<comment> \<open>the ticket as \<open>JSON.stringify\<close> sees it: a \<open>Date\<close> gives its \<open>toJSON()\<close>\<close>
  "ticketJson e t =
    JObj [(''token'', token t), (''sign'', sign t),
          (''expirationTime'', (case expirationTime t of
                                 Date x \<Rightarrow> JStr (toISOString e x)
                               | InvalidDate \<Rightarrow> JNull))]"

definition writeJson :: "env \<Rightarrow> world \<Rightarrow> string \<Rightarrow> jsval \<Rightarrow> (err + unit) \<times> world" where
  \<comment> \<open>\<open>fs.writeFileSync(p, JSON.stringify(v, null, 2))\<close>; writing \<open>undefined\<close> is a \<open>TypeError\<close>\<close>
  "writeJson e w p v =
    (case jsonStringify e v of
       None \<Rightarrow> (Inl TypeError, w)
     | Some s \<Rightarrow> writeFileSync e w p s)"

definition saveTicketToDisk :: "env \<Rightarrow> world \<Rightarrow> string \<Rightarrow> ticket \<Rightarrow> (err + unit) \<times> world" where
  \<comment> \<open>lines 86 to 90: the body of the \<open>try\<close> that saves the new ticket\<close>
  "saveTicketToDisk e w cacheFile t =
    (case (if \<not> existsSync w (cacheDir e) then mkdirSync e w (cacheDir e) else (Inr (), w)) of
       (Inl x, w1) \<Rightarrow> (Inl x, w1)
     | (Inr u, w1) \<Rightarrow> writeJson e w1 cacheFile (ticketJson e t))"

definition getTicketAcceso_request ::
  "env \<Rightarrow> world \<Rightarrow> int \<Rightarrow> string \<Rightarrow> string \<Rightarrow> string \<Rightarrow> (err + ticket option) \<times> world" where
  \<comment> \<open>lines 74 to 97: ask for a new ticket and store it in both caches\<close>
  "getTicketAcceso_request e w b service cacheKey cacheFile =
    (case requestTicketAcceso e w b service of
       (Inl x, w1) \<Rightarrow> (Inl x, w1)
     | (Inr None, w1) \<Rightarrow> (Inr None, w1)
     | (Inr (Some t), w1) \<Rightarrow>
        (let w2 = w1\<lparr>ticketCache := AList.update cacheKey t (ticketCache w1)\<rparr> in
         case saveTicketToDisk e w2 cacheFile t of
           (Inl x, w3) \<Rightarrow> (Inr (Some t), logErr x w3)
         | (Inr u, w3) \<Rightarrow> (Inr (Some t), w3)))"

definition getTicketAcceso_try :: "env \<Rightarrow> world \<Rightarrow> int \<Rightarrow> string \<Rightarrow> (err + ticket option) \<times> world" where
  "getTicketAcceso_try e w b service =
    (let cacheKey = cacheKeyOf b service; cacheFile = cacheFileOf e cacheKey in
     case getTicketAcceso_memory e w cacheKey of
       (Some t, w1) \<Rightarrow> (Inr (Some t), w1)
     | (None, w1) \<Rightarrow>
        (case getTicketAcceso_disk e w1 cacheKey cacheFile of
           (Some t, w2) \<Rightarrow> (Inr (Some t), w2)
         | (None, w2) \<Rightarrow> getTicketAcceso_request e w2 b service cacheKey cacheFile))"

definition getTicketAcceso :: "env \<Rightarrow> world \<Rightarrow> int \<Rightarrow> string \<Rightarrow> (err + ticket option) \<times> world" where
  \<comment> \<open>\<open>Inr None\<close> is \<open>null\<close>; \<open>Inl\<close> would be an exception that leaves the function. A
      caller that leaves \<open>service\<close> out passes \<open>''wsfe''\<close>, the default of the parameter\<close>
  "getTicketAcceso e w b service =
    (case getTicketAcceso_try e w b service of
       (Inl x, w1) \<Rightarrow> (Inr None, logErr x w1)
     | (Inr r, w1) \<Rightarrow> (Inr r, w1))"

subsection \<open>clearCache\<close>

definition unlinkIfExists :: "env \<Rightarrow> world \<Rightarrow> string \<Rightarrow> (err + unit) \<times> world" where
  \<comment> \<open>\<open>if (fs.existsSync(f)) { fs.unlinkSync(f); }\<close>\<close>
  "unlinkIfExists e w f = (if existsSync w f then unlinkSync e w f else (Inr (), w))"

fun clearKeys :: "env \<Rightarrow> world \<Rightarrow> string list \<Rightarrow> (err + unit) \<times> world" where
  \<comment> \<open>lines 424 to 430: \<open>keysToDelete.forEach\<close>; an exception ends the loop\<close>
  "clearKeys e w [] = (Inr (), w)"
| "clearKeys e w (key # keys) =
     (case unlinkIfExists e (w\<lparr>ticketCache := AList.delete key (ticketCache w)\<rparr>) (cacheFileOf e key) of
        (Inl x, w1) \<Rightarrow> (Inl x, w1)
      | (Inr u, w1) \<Rightarrow> clearKeys e w1 keys)"

fun clearFiles :: "env \<Rightarrow> world \<Rightarrow> string list \<Rightarrow> (err + unit) \<times> world" where
  \<comment> \<open>lines 439 to 443: \<open>files.forEach\<close>; an exception ends the loop\<close>
  "clearFiles e w [] = (Inr (), w)"
| "clearFiles e w (f # fs) =
     (if startsWith f ''ta_'' \<and> endsWith f ''.json'' then
        (case unlinkSync e w (pathJoin (cacheDir e) f) of
           (Inl x, w1) \<Rightarrow> (Inl x, w1)
         | (Inr u, w1) \<Rightarrow> clearFiles e w1 fs)
      else clearFiles e w fs)"

definition truthyId :: "int option \<Rightarrow> int option" where
  \<comment> \<open>\<open>businessId\<close> when it is truthy: not \<open>undefined\<close> and not 0\<close>
  "truthyId b = (case b of None \<Rightarrow> None | Some n \<Rightarrow> if n \<noteq> 0 then Some n else None)"

definition truthyService :: "string option \<Rightarrow> string option" where
  \<comment> \<open>\<open>service\<close> when it is truthy: not \<open>undefined\<close> and not the empty string\<close>
  "truthyService s = (case s of None \<Rightarrow> None | Some x \<Rightarrow> if x \<noteq> [] then Some x else None)"

definition clearCache_key :: "env \<Rightarrow> world \<Rightarrow> int \<Rightarrow> string \<Rightarrow> (err + unit) \<times> world" where
  \<comment> \<open>lines 401 to 415: one key\<close>
  "clearCache_key e w b service =
    (let cacheKey = cacheKeyOf b service; cacheFile = cacheFileOf e cacheKey in
     unlinkIfExists e (w\<lparr>ticketCache := AList.delete cacheKey (ticketCache w)\<rparr>) cacheFile)"

definition clearCache_business :: "env \<Rightarrow> world \<Rightarrow> int \<Rightarrow> (err + unit) \<times> world" where
  \<comment> \<open>lines 417 to 431: the keys in memory that start with \<open>`${businessId}_`\<close>\<close>
  "clearCache_business e w b =
    (let keysToDelete = filter (\<lambda>key. startsWith key (showInt b @ ''_'')) (map fst (ticketCache w))
     in clearKeys e w keysToDelete)"

definition clearCache_all :: "env \<Rightarrow> world \<Rightarrow> (err + unit) \<times> world" where
  \<comment> \<open>lines 433 to 446: everything\<close>
  "clearCache_all e w =
    (let w1 = w\<lparr>ticketCache := []\<rparr> in
     if existsSync w1 (cacheDir e) then
       (case readdirSync e w1 (cacheDir e) of
          Inl x \<Rightarrow> (Inl x, w1)
        | Inr names \<Rightarrow> clearFiles e w1 names)
     else (Inr (), w1))"

definition clearCache :: "env \<Rightarrow> world \<Rightarrow> int option \<Rightarrow> string option \<Rightarrow> (err + unit) \<times> world" where
  \<comment> \<open>\<open>None\<close> is an argument left out; \<open>Inl\<close> is an exception that leaves the function.
      \<open>if (businessId && service) ... else if (businessId) ... else ...\<close>\<close>
  "clearCache e w businessIdOpt serviceOpt =
    (case (truthyId businessIdOpt, truthyService serviceOpt) of
       (Some b, Some service) \<Rightarrow> clearCache_key e w b service
     | (Some b, None) \<Rightarrow> clearCache_business e w b
     | (None, s) \<Rightarrow> clearCache_all e w)"

section \<open>certificate.service.ts: ingestion\<close>







subsection \<open>The CUIT of a certificate\<close>










subsection \<open>Certificate and key, certificate alone\<close>








section \<open>padron.service.ts: the CUIT validator\<close>

definition normalizarDocumento :: "string \<Rightarrow> string" where
  \<comment> \<open>\<open>documento.replace(/[-\s]/g, '')\<close>\<close>
  "normalizarDocumento documento = filter (\<lambda>c. \<not> (c = CHR ''-'' \<or> isSpaceJs c)) documento"

definition multiplicadores :: "int list" where
  "multiplicadores = [5, 4, 3, 2, 7, 6, 5, 4, 3, 2]"

definition validarCUIT :: "string \<Rightarrow> bool" where
  \<comment> \<open>\<open>/^\d+$/.test(s)\<close>: \<open>s\<close> is not empty and all its characters are digits\<close>
  "validarCUIT cuitArg =
    (let cuitLimpio = normalizarDocumento cuitArg in
     if length cuitLimpio \<noteq> 11 \<or> \<not> (cuitLimpio \<noteq> [] \<and> list_all isDigit cuitLimpio) then False
     else
       let digitos = map digitVal cuitLimpio;
           digitoVerificador = digitos ! 10;
           suma = fold (\<lambda>i suma. suma + digitos ! i * multiplicadores ! i) [0..<10] 0;
           resto = suma mod 11;
           resultado = 11 - resto
       in if resultado = 11 then digitoVerificador = 0
          else if resultado = 10 then digitoVerificador = 9
          else digitoVerificador = resultado)"

text \<open>
  The check digit as the specification words it: 11 minus the weighted sum of the first
  ten digits modulo 11, with 11 mapped to 0 and 10 mapped to 9.
\<close>

definition specWeightedSum :: "int list \<Rightarrow> int" where
  "specWeightedSum ds = (\<Sum>i<10. ds ! i * [5, 4, 3, 2, 7, 6, 5, 4, 3, 2] ! i)"

definition specCheckDigit :: "int list \<Rightarrow> int" where
  "specCheckDigit ds =
    (let r = 11 - specWeightedSum ds mod 11 in if r = 11 then 0 else if r = 10 then 9 else r)"

section \<open>Specification-side notions\<close>

definition safetyMargin :: int where
  "safetyMargin = 5 * 60 * 1000"

definition specUsable :: "ticket \<Rightarrow> int \<Rightarrow> bool" where
  \<comment> \<open>"usable only while expirationTime - safetyMargin(5min) > now"; no comparison holds
      for an invalid date\<close>
  "specUsable t now =
    (case expirationTime t of Date x \<Rightarrow> x - safetyMargin > now | InvalidDate \<Rightarrow> False)"

fun isPost :: "event \<Rightarrow> bool" where
  "isPost (EvPost body) = True"
| "isPost ev = False"

fun isLookup :: "event \<Rightarrow> bool" where
  "isLookup (EvLookup b found) = True"
| "isLookup ev = False"

fun isRead :: "event \<Rightarrow> bool" where
  "isRead (EvRead p) = True"
| "isRead ev = False"

definition newEvents :: "world \<Rightarrow> world \<Rightarrow> event list" where
  \<comment> \<open>the events of a run from \<open>w\<close> to \<open>w'\<close>\<close>
  "newEvents w w' = drop (length (trace w)) (trace w')"

section \<open>Runs and their events\<close>

definition lookups :: "event list \<Rightarrow> event list" where
  \<comment> \<open>the calls to the certificate store, in order\<close>
  "lookups evs = filter isLookup evs"

definition posts :: "event list \<Rightarrow> event list" where
  \<comment> \<open>the network calls, in order\<close>
  "posts evs = filter isPost evs"

definition quietEv :: "event \<Rightarrow> bool" where
  "quietEv ev = (\<not> isLookup ev \<and> \<not> isPost ev)"

definition quietRun :: "world \<Rightarrow> world \<Rightarrow> bool" where
  \<comment> \<open>from \<open>w\<close> to \<open>w'\<close> the trace grows by file reads and log lines only\<close>
  "quietRun w w' = (\<exists>evs. trace w' = trace w @ evs \<and> list_all quietEv evs)"

definition sendOutcome :: "env \<Rightarrow> string \<Rightarrow> err + jsval" where
  \<comment> \<open>what \<open>sendToAFIP\<close> returns or throws once it has posted \<open>soapRequest\<close>\<close>
  "sendOutcome e soapRequest =
    (case axiosPost e (wsaaUrl e) soapRequest of
       AxiosResponse d \<Rightarrow> Inr d
     | AxiosHttpError status statusText d \<Rightarrow>
        (case responseDataOf e d of
           Inl x \<Rightarrow> Inl x
         | Inr responseData \<Rightarrow>
            if strIncludes responseData ''alreadyAuthenticated'' \<or>
               strIncludes responseData ''ya posee un TA valido''
            then Inl AfipTicketYaCacheado
            else Inl (WsaaHttpError status statusText))
     | AxiosFailure m \<Rightarrow> Inl (LibError m))"

definition acquisitionRun :: "env \<Rightarrow> int \<Rightarrow> event list \<Rightarrow> err + ticket \<Rightarrow> bool" where
  \<comment> \<open>the three shapes of a run of \<open>requestTicketAcceso\<close>'s \<open>try\<close> block: no certificate;
      a certificate and no network call; a certificate and one network call\<close>
  "acquisitionRun e b evs r =
    ((r = Inl (NoCertificateFound b) \<and> lookups evs = [EvLookup b False] \<and> posts evs = [])
     \<or> (lookups evs = [EvLookup b True] \<and> posts evs = [] \<and> (\<exists>x. r = Inl x))
     \<or> (lookups evs = [EvLookup b True] \<and>
         (\<exists>cms. posts evs = [EvPost (soapRequestOf cms)] \<and>
                (\<forall>x. sendOutcome e (soapRequestOf cms) = Inl x \<longrightarrow> r = Inl x))))"

definition ticketRun :: "env \<Rightarrow> int \<Rightarrow> event list \<Rightarrow> err + ticket option \<Rightarrow> bool" where
  \<comment> \<open>the four shapes of a run of \<open>getTicketAcceso\<close>: served from a cache; no certificate;
      a certificate and no network call; a certificate and one network call\<close>
  "ticketRun e b evs r =
    ((lookups evs = [] \<and> posts evs = [])
     \<or> (r = Inr None \<and> lookups evs = [EvLookup b False] \<and> posts evs = [] \<and>
         EvLog (NoCertificateFound b) \<in> set evs)
     \<or> (r = Inr None \<and> lookups evs = [EvLookup b True] \<and> posts evs = [])
     \<or> (lookups evs = [EvLookup b True] \<and>
         (\<exists>cms. posts evs = [EvPost (soapRequestOf cms)] \<and>
                (\<forall>x. sendOutcome e (soapRequestOf cms) = Inl x \<longrightarrow>
                       r = Inr None \<and> EvLog x \<in> set evs))))"

section \<open>Concrete inputs\<close>

text \<open>
  A small environment and a few states, on which the theorems are run. The clock
  always reads 1000000; \<open>"CERT"\<close> and \<open>"KEY"\<close> are the only PEM texts that parse;
  \<open>"INFO"\<close> and \<open>"TICKET"\<close> are the only JSON texts that parse; no file operation fails;
  the authority does not answer.
\<close>

definition cert0 :: certificate where
  "cert0 =
    \<lparr>subject = [\<lparr>aname = Some ''commonName'', shortName = Some ''CN'', avalue = ''CUIT 27999999990''\<rparr>,
                \<lparr>aname = Some ''serialNumber'', shortName = Some ''serialNumber'',
                 avalue = ''CUIT 20123456789''\<rparr>],
     issuer = [\<lparr>aname = Some ''commonName'', shortName = Some ''CN'', avalue = ''Computadores''\<rparr>],
     notBefore = Date 900000,
     notAfter = Date 5000000\<rparr>"

definition faultDoc :: jsval where
  \<comment> \<open>a SOAP envelope whose body is the fault of the authority for a ticket that exists\<close>
  "faultDoc =
    JObj [(''soapenv:Envelope'',
      JObj [(''soapenv:Body'',
        JObj [(''soapenv:Fault'',
          JObj [(''faultcode'', JStr ''ns1:coe.alreadyAuthenticated''),
                (''faultstring'', JStr ''El CEE ya posee un TA valido para el acceso al WSN solicitado'')])])])]"

definition env0 :: env where
  "env0 =
    \<lparr>clock = (\<lambda>n. 1000000),
     cacheDir = ''/cache'',
     certsPath = ''/certs'',
     wsaaUrl = ''https://wsaa.afip.gov.ar/ws/services/LoginCms'',
     readFails = (\<lambda>p. False),
     writeFails = (\<lambda>p. False),
     unlinkFails = (\<lambda>p. False),
     mkdirFails = (\<lambda>p. False),
     jsonParse = (\<lambda>s. if s = ''INFO''
                        then Some (JObj [(''cuit'', JStr ''20123456789''), (''validTo'', JNum 5000000)])
                        else if s = ''TICKET''
                        then Some (JObj [(''token'', JStr ''tok''), (''sign'', JStr ''sig''),
                                         (''expirationTime'', JNum 2000000)])
                        else None),
     jsonStringify = (\<lambda>v. Some ''JSON''),
     dateOf = (\<lambda>v. case v of JNum n \<Rightarrow> Date n | _ \<Rightarrow> InvalidDate),
     toISOString = (\<lambda>t. ''ISO''),
     xmlParse = (\<lambda>v. if v = JStr ''FAULT'' then Inr faultDoc else Inl (LibError ''not XML'')),
     buildTRA = (\<lambda>uniqueId generationTime expiration service. ''TRA''),
     signCms = (\<lambda>tra cert key signingTime. Inr ''CMS''),
     axiosPost = (\<lambda>url body. AxiosFailure ''ETIMEDOUT''),
     certificateFromPem = (\<lambda>s. if s = ''CERT'' then Inr cert0 else Inl (LibError ''not PEM'')),
     certificateFromDer = (\<lambda>s. Inl (LibError ''not DER'')),
     certificateToPem = (\<lambda>c. Inr ''CERT''),
     privateKeyFromPem = (\<lambda>s. if s = ''KEY'' then Inr ''KEY'' else Inl (LibError ''not PEM'')),
     privateKeyToPem = (\<lambda>k. Inr k),
     pkcs12FromDer = (\<lambda>b p. Inl (LibError ''not PKCS12'')),
     toPkcs12Der = (\<lambda>k c p. Inr ''PFX''),
     generateKeyPair = (\<lambda>n. Inr ''NEWKEY''),
     getField = (\<lambda>attrs n. find (\<lambda>a. shortName a = Some n) attrs)\<rparr>"

definition world0 :: world where
  \<comment> \<open>nothing cached, nothing on disk\<close>
  "world0 = \<lparr>ticketCache = [], certsCache = [], files = [], dirs = [], tick = 0, trace = []\<rparr>"

definition worldCert :: world where
  \<comment> \<open>the material of tenant 7 on disk; nothing cached\<close>
  "worldCert =
    \<lparr>ticketCache = [], certsCache = [],
     files = [(''/certs/7/info.json'', ''INFO''), (''/certs/7/cert.pem'', ''CERT''),
              (''/certs/7/key.pem'', ''KEY'')],
     dirs = [''/certs/7'', ''/cache''], tick = 0, trace = []\<rparr>"

definition ticketFresh :: ticket where
  \<comment> \<open>1000 seconds left at time 1000000\<close>
  "ticketFresh = \<lparr>token = JStr ''tok'', sign = JStr ''sig'', expirationTime = Date 2000000\<rparr>"

definition ticketStale :: ticket where
  \<comment> \<open>exactly five minutes left at time 1000000\<close>
  "ticketStale = \<lparr>token = JStr ''old'', sign = JStr ''old'', expirationTime = Date 1300000\<rparr>"

definition worldTickets :: world where
  \<comment> \<open>three tickets in memory and on disk, for the tenants 1 and 2\<close>
  "worldTickets =
    \<lparr>ticketCache = [(''1_wsfe'', ticketFresh), (''1_ws_sr_padron_a5'', ticketStale),
                    (''2_wsfe'', ticketFresh)],
     certsCache = [],
     files = [(''/cache/ta_1_wsfe.json'', ''TICKET''), (''/cache/ta_1_ws_sr_padron_a5.json'', ''TICKET''),
              (''/cache/ta_2_wsfe.json'', ''TICKET'')],
     dirs = [''/cache''], tick = 0, trace = []\<rparr>"

definition envAlready :: env where
  \<comment> \<open>the authority answers with HTTP 500 and the fault for a ticket that exists\<close>
  "envAlready =
    env0\<lparr>axiosPost := (\<lambda>url body. AxiosHttpError 500 ''Internal Server Error''
      (JStr ''<faultstring>El CEE ya posee un TA valido para el acceso al WSN solicitado</faultstring>''))\<rparr>"

definition envFault :: env where
  \<comment> \<open>the authority answers with a success status and a body that parses to \<open>faultDoc\<close>\<close>
  "envFault = env0\<lparr>axiosPost := (\<lambda>url body. AxiosResponse (JStr ''FAULT''))\<rparr>"



section \<open>The CUIT validator: claim C2\<close>

lemma fold_add_sum:
  "fold (\<lambda>i (s::int). s + f i) [0..<n] a = a + (\<Sum>i<n. f i)"
  by (induction n) simp_all

lemma normalizar_digits:
  "list_all isDigit s \<Longrightarrow> normalizarDocumento s = s"
proof -
  assume a: "list_all isDigit s"
  have "\<And>c. isDigit c \<Longrightarrow> \<not> (c = CHR ''-'' \<or> isSpaceJs c)"
    by (auto simp: isDigit_def isSpaceJs_def)
  with a show ?thesis
    unfolding normalizarDocumento_def by (induction s) auto
qed

lemma validarCUIT_unfold:
  "validarCUIT s =
    (let c = normalizarDocumento s in
      length c = 11 \<and> list_all isDigit c \<and>
      specCheckDigit (map digitVal c) = digitVal (c ! 10))"
proof -
  let ?c = "normalizarDocumento s"
  show ?thesis
  proof (cases "length ?c = 11 \<and> list_all isDigit ?c")
    case False
    then show ?thesis by (auto simp: validarCUIT_def Let_def)
  next
    case True
    then have ne: "?c \<noteq> []" by auto
    have s: "fold (\<lambda>i suma. suma + map digitVal ?c ! i * multiplicadores ! i) [0..<10] 0
               = specWeightedSum (map digitVal ?c)"
      by (simp add: fold_add_sum specWeightedSum_def multiplicadores_def)
    from True have d: "map digitVal ?c ! 10 = digitVal (?c ! 10)" by simp
    show ?thesis
      using True ne unfolding validarCUIT_def Let_def s d specCheckDigit_def by auto
  qed
qed

text \<open>
  C2. A string of exactly 11 decimal digits is accepted by \<open>validarCUIT\<close> if and only if
  its 11th digit equals the check digit of the specification (11 minus the weighted sum
  of the first ten digits modulo 11, 11 mapped to 0 and 10 mapped to 9); and every input
  that is not 11 digits after normalization is rejected.
\<close>

theorem C2_validarCUIT_check_digit:
  "(length s = 11 \<and> list_all isDigit s \<longrightarrow>
      (validarCUIT s \<longleftrightarrow> specCheckDigit (map digitVal (take 10 s)) = digitVal (s ! 10)))
   \<and> (\<not> (length (normalizarDocumento s) = 11 \<and> list_all isDigit (normalizarDocumento s)) \<longrightarrow>
      \<not> validarCUIT s)"
proof (intro conjI impI)
  assume a: "length s = 11 \<and> list_all isDigit s"
  then have n: "normalizarDocumento s = s" by (simp add: normalizar_digits)
  have "specWeightedSum (map digitVal (take 10 s)) = specWeightedSum (map digitVal s)"
    unfolding specWeightedSum_def using a by (intro sum.cong) auto
  then have "specCheckDigit (map digitVal (take 10 s)) = specCheckDigit (map digitVal s)"
    by (simp add: specCheckDigit_def)
  then show "validarCUIT s \<longleftrightarrow> specCheckDigit (map digitVal (take 10 s)) = digitVal (s ! 10)"
    using a n by (simp add: validarCUIT_unfold Let_def)
next
  assume "\<not> (length (normalizarDocumento s) = 11 \<and> list_all isDigit (normalizarDocumento s))"
  then show "\<not> validarCUIT s" by (auto simp: validarCUIT_unfold Let_def)
qed

theorem C2_validarCUIT_check_digit_witness:
  "validarCUIT ''33693450239'' \<and> \<not> validarCUIT ''20a23456789'' \<and> \<not> validarCUIT ''33693450238''"
proof -
  have d: "length ''33693450239'' = 11 \<and> list_all isDigit ''33693450239''"
    by (simp add: isDigit_def)
  have c: "specCheckDigit (map digitVal (take 10 ''33693450239'')) = digitVal (''33693450239'' ! 10)"
    by (simp add: specCheckDigit_def specWeightedSum_def digitVal_def lessThan_nat_numeral lessThan_Suc)
  have d2: "length ''33693450238'' = 11 \<and> list_all isDigit ''33693450238''"
    by (simp add: isDigit_def)
  have c2: "specCheckDigit (map digitVal (take 10 ''33693450238'')) \<noteq> digitVal (''33693450238'' ! 10)"
    by (simp add: specCheckDigit_def specWeightedSum_def digitVal_def lessThan_nat_numeral lessThan_Suc)
  have n: "\<not> (length (normalizarDocumento ''20a23456789'') = 11 \<and>
              list_all isDigit (normalizarDocumento ''20a23456789''))"
    by (simp add: normalizarDocumento_def isDigit_def isSpaceJs_def)
  show ?thesis
    using C2_validarCUIT_check_digit [of "''33693450239''"]
          C2_validarCUIT_check_digit [of "''20a23456789''"]
          C2_validarCUIT_check_digit [of "''33693450238''"] d c d2 c2 n
    by blast
qed

section \<open>The shape of a run\<close>

lemma quietRun_refl: "trace w' = trace w \<Longrightarrow> quietRun w w'"
  by (simp add: quietRun_def)

lemma quietRun_trans: "quietRun w w1 \<Longrightarrow> quietRun w1 w2 \<Longrightarrow> quietRun w w2"
  by (auto simp: quietRun_def)

lemma quietRun_log: "quietRun w w1 \<Longrightarrow> quietRun w (logErr x w1)"
  by (auto simp: quietRun_def logErr_def quietEv_def)

lemma quietRun_upd:
  "quietRun w w1 \<Longrightarrow> trace w2 = trace w1 \<Longrightarrow> quietRun w w2"
  by (auto simp: quietRun_def)

lemma readFileSync_quiet: "readFileSync e w p = (r, w') \<Longrightarrow> quietRun w w'"
  by (auto simp: readFileSync_def quietRun_def quietEv_def Let_def split: if_splits option.splits)

lemma writeFileSync_trace: "writeFileSync e w p c = (r, w') \<Longrightarrow> trace w' = trace w"
  by (auto simp: writeFileSync_def split: if_splits)

lemma unlinkSync_trace: "unlinkSync e w p = (r, w') \<Longrightarrow> trace w' = trace w"
  by (auto simp: unlinkSync_def split: if_splits)

lemma mkdirSync_trace: "mkdirSync e w p = (r, w') \<Longrightarrow> trace w' = trace w"
  by (auto simp: mkdirSync_def split: if_splits)

lemma newDate_trace: "newDate e w = (n, w') \<Longrightarrow> trace w' = trace w"
  by (auto simp: newDate_def)

lemma isTicketValid_trace: "isTicketValid e w t = (v, w') \<Longrightarrow> trace w' = trace w"
  by (auto simp: isTicketValid_def newDate_def split: date.splits)

lemma isTicketValid_eq:
  "isTicketValid e w t = (specUsable t (clock e (tick w)), w\<lparr>tick := Suc (tick w)\<rparr>)"
  by (simp add: isTicketValid_def specUsable_def safetyMargin_def newDate_def split: date.splits)

lemma memory_trace: "getTicketAcceso_memory e w k = (r, w') \<Longrightarrow> trace w' = trace w"
  by (auto simp: getTicketAcceso_memory_def isTicketValid_eq split: option.splits if_splits)

lemma diskTry_quiet:
  assumes "getTicketAcceso_diskTry e w k f = (r, w')"
  shows "quietRun w w'"
proof -
  obtain rr w1 where rd: "readFileSync e w f = (rr, w1)" by (cases "readFileSync e w f")
  have q1: "quietRun w w1" by (rule readFileSync_quiet [OF rd])
  have "trace w' = trace w1"
    using assms rd
    by (auto simp: getTicketAcceso_diskTry_def isTicketValid_eq
             split: sum.splits option.splits prod.splits if_splits
             dest!: unlinkSync_trace)
  with q1 show ?thesis by (rule quietRun_upd)
qed

lemma disk_quiet:
  "getTicketAcceso_disk e w k f = (r, w') \<Longrightarrow> quietRun w w'"
  by (auto simp: getTicketAcceso_disk_def quietRun_refl
           split: if_splits prod.splits sum.splits
           dest!: diskTry_quiet intro: quietRun_log)

lemma load_quiet:
  assumes "getCertificateInfo_load e w b = (r, w')"
  shows "quietRun w w'"
proof (cases "existsSync w (pathJoin (certDirOf e b) ''info.json'')")
  case False
  with assms show ?thesis by (simp add: getCertificateInfo_load_def Let_def quietRun_refl)
next
  case True
  obtain rr w1 where rd: "readFileSync e w (pathJoin (certDirOf e b) ''info.json'') = (rr, w1)"
    by (cases "readFileSync e w (pathJoin (certDirOf e b) ''info.json'')")
  have q1: "quietRun w w1" by (rule readFileSync_quiet [OF rd])
  have "trace w' = trace w1"
    using assms rd True
    by (auto simp: getCertificateInfo_load_def Let_def
             split: sum.splits option.splits if_splits)
  with q1 show ?thesis by (rule quietRun_upd)
qed

lemma getCertificateInfo_try_quiet:
  "getCertificateInfo_try e w b = (r, w') \<Longrightarrow> quietRun w w'"
  by (auto simp: getCertificateInfo_try_def newDate_def
           split: option.splits if_splits dest!: load_quiet)
     (auto simp: quietRun_def)

lemma sendToAFIP_eq:
  "sendToAFIP e w cms =
     (sendOutcome e (soapRequestOf cms), w\<lparr>trace := trace w @ [EvPost (soapRequestOf cms)]\<rparr>)"
  by (simp add: sendToAFIP_def sendOutcome_def Let_def split: axios_result.splits sum.splits)

lemma getCertificateInfo_quiet:
  "getCertificateInfo e w b = (r, w') \<Longrightarrow> quietRun w w'"
  by (auto simp: getCertificateInfo_def split: prod.splits sum.splits
           dest!: getCertificateInfo_try_quiet intro: quietRun_log)

lemma getCertificateInfo_Inr:
  "getCertificateInfo e w b = (r, w') \<Longrightarrow> \<exists>c. r = Inr c"
  by (auto simp: getCertificateInfo_def split: prod.splits sum.splits)

lemma generateTRA_trace: "generateTRA e w s = (tra, w') \<Longrightarrow> trace w' = trace w"
  by (auto simp: generateTRA_def newDate_def Let_def)

lemma signTRA_try_quiet:
  assumes "signTRA_try e w tra cf kf = (r, w')"
  shows "quietRun w w'"
proof -
  obtain r1 w1 where a: "readFileSync e w cf = (r1, w1)" by (cases "readFileSync e w cf")
  obtain r2 w2 where b: "readFileSync e w1 kf = (r2, w2)" by (cases "readFileSync e w1 kf")
  have q1: "quietRun w w1" by (rule readFileSync_quiet [OF a])
  have q2: "quietRun w1 w2" by (rule readFileSync_quiet [OF b])
  have "trace w' = trace w1 \<or> trace w' = trace w2"
    using assms a b
    by (auto simp: signTRA_try_def readCertificate_def readPrivateKey_def newDate_def
             split: sum.splits)
  then show ?thesis
    using q1 quietRun_trans [OF q1 q2] by (auto elim: quietRun_upd)
qed

lemma signTRA_quiet: "signTRA e w tra cf kf = (r, w') \<Longrightarrow> quietRun w w'"
  by (auto simp: signTRA_def split: prod.splits sum.splits
           dest!: signTRA_try_quiet intro: quietRun_log)

lemma parseResponse_quiet: "parseResponse e w x = (r, w') \<Longrightarrow> quietRun w w'"
  by (auto simp: parseResponse_def split: sum.splits intro: quietRun_log quietRun_refl)

lemma quietRunD:
  "quietRun w w' \<Longrightarrow> \<exists>evs. trace w' = trace w @ evs \<and> lookups evs = [] \<and> posts evs = []"
  unfolding quietRun_def lookups_def posts_def
  by (auto simp: quietEv_def list_all_iff filter_empty_conv)

lemma lookups_append [simp]: "lookups (a @ b) = lookups a @ lookups b"
  by (simp add: lookups_def)

lemma posts_append [simp]: "posts (a @ b) = posts a @ posts b"
  by (simp add: posts_def)

lemma lookups_simps [simp]:
  "lookups [] = []" "lookups (EvLookup b f # evs) = EvLookup b f # lookups evs"
  "lookups (EvPost x # evs) = lookups evs" "lookups (EvLog y # evs) = lookups evs"
  "lookups (EvRead p # evs) = lookups evs"
  by (simp_all add: lookups_def)

lemma posts_simps [simp]:
  "posts [] = []" "posts (EvLookup b f # evs) = posts evs"
  "posts (EvPost x # evs) = EvPost x # posts evs" "posts (EvLog y # evs) = posts evs"
  "posts (EvRead p # evs) = posts evs"
  by (simp_all add: posts_def)

lemma requestTicketAcceso_try_run:
  assumes run: "requestTicketAcceso_try e w b s = (r, w')"
  shows "\<exists>evs. trace w' = trace w @ evs \<and> acquisitionRun e b evs r"
proof -
  obtain c w0 where gc: "getCertificateInfo e w b = (Inr c, w0)"
    using getCertificateInfo_Inr [of e w b] by (cases "getCertificateInfo e w b") auto
  from quietRunD [OF getCertificateInfo_quiet [OF gc]]
  obtain ev0 where t0: "trace w0 = trace w @ ev0" and l0: "lookups ev0 = []" and p0: "posts ev0 = []"
    by blast
  show ?thesis
  proof (cases c)
    case None
    with run gc have "r = Inl (NoCertificateFound b)"
      and "trace w' = trace w @ (ev0 @ [EvLookup b False])"
      using t0 by (auto simp: requestTicketAcceso_try_def)
    then show ?thesis using l0 p0 by (auto simp: acquisitionRun_def)
  next
    case (Some info)
    let ?w1 = "w0\<lparr>trace := trace w0 @ [EvLookup b True]\<rparr>"
    obtain tra w2 where gt: "generateTRA e ?w1 s = (tra, w2)" by (cases "generateTRA e ?w1 s")
    have t2: "trace w2 = trace w @ ev0 @ [EvLookup b True]"
      using generateTRA_trace [OF gt] t0 by simp
    obtain rs w3 where sg: "signTRA e w2 tra (certPath info) (keyPath info) = (rs, w3)"
      by (cases "signTRA e w2 tra (certPath info) (keyPath info)")
    from quietRunD [OF signTRA_quiet [OF sg]]
    obtain ev3 where t3: "trace w3 = trace w2 @ ev3" and l3: "lookups ev3 = []" and p3: "posts ev3 = []"
      by blast
    show ?thesis
    proof (cases rs)
      case (Inl x)
      with run gc Some gt sg have "r = Inl x" and "w' = w3"
        by (auto simp: requestTicketAcceso_try_def Let_def)
      then have "trace w' = trace w @ (ev0 @ [EvLookup b True] @ ev3)" using t3 t2 by simp
      moreover have "acquisitionRun e b (ev0 @ [EvLookup b True] @ ev3) r"
        using \<open>r = Inl x\<close> l0 p0 l3 p3 by (simp add: acquisitionRun_def)
      ultimately show ?thesis by blast
    next
      case (Inr cms)
      let ?w4 = "w3\<lparr>trace := trace w3 @ [EvPost (soapRequestOf cms)]\<rparr>"
      show ?thesis
      proof (cases "sendOutcome e (soapRequestOf cms)")
        case (Inl x)
        with run gc Some gt sg Inr have "r = Inl x" and "w' = ?w4"
          by (auto simp: requestTicketAcceso_try_def Let_def sendToAFIP_eq)
        then have "trace w' = trace w @ (ev0 @ [EvLookup b True] @ ev3 @ [EvPost (soapRequestOf cms)])"
          using t3 t2 by simp
        moreover have "acquisitionRun e b (ev0 @ [EvLookup b True] @ ev3 @ [EvPost (soapRequestOf cms)]) r"
          using \<open>r = Inl x\<close> Inl l0 p0 l3 p3 by (auto simp: acquisitionRun_def)
        ultimately show ?thesis by blast
      next
        case resp: (Inr response)
        obtain rp w5 where pr: "parseResponse e ?w4 response = (rp, w5)"
          by (cases "parseResponse e ?w4 response")
        from quietRunD [OF parseResponse_quiet [OF pr]]
        obtain ev5 where t5: "trace w5 = trace ?w4 @ ev5" and l5: "lookups ev5 = []"
          and p5: "posts ev5 = []" by blast
        from run gc Some gt sg Inr resp pr have "w' = w5"
          by (auto simp: requestTicketAcceso_try_def Let_def sendToAFIP_eq
                   split: sum.splits date.splits)
        then have "trace w' = trace w @ (ev0 @ [EvLookup b True] @ ev3 @ [EvPost (soapRequestOf cms)] @ ev5)"
          using t5 t3 t2 by simp
        moreover have "acquisitionRun e b
            (ev0 @ [EvLookup b True] @ ev3 @ [EvPost (soapRequestOf cms)] @ ev5) r"
          using resp l0 p0 l3 p3 l5 p5 by (auto simp: acquisitionRun_def)
        ultimately show ?thesis by blast
      qed
    qed
  qed
qed

lemma ticketRun_quiet: "lookups evs = [] \<Longrightarrow> posts evs = [] \<Longrightarrow> ticketRun e b evs r"
  by (simp add: ticketRun_def)

lemma ticketRun_pre:
  "lookups pre = [] \<Longrightarrow> posts pre = [] \<Longrightarrow> ticketRun e b evs r \<Longrightarrow> ticketRun e b (pre @ evs) r"
  unfolding ticketRun_def by (elim disjE conjE exE) auto

lemma ticketRun_post:
  "lookups suf = [] \<Longrightarrow> posts suf = [] \<Longrightarrow> ticketRun e b evs r \<Longrightarrow> ticketRun e b (evs @ suf) r"
  unfolding ticketRun_def by (elim disjE conjE exE) auto

lemma requestTicketAcceso_run:
  assumes run: "requestTicketAcceso e w b s = (r, w')"
  shows "\<exists>evs. trace w' = trace w @ evs \<and> ticketRun e b evs r \<and> (\<exists>t. r = Inr t)"
proof -
  obtain r0 w0 where tr: "requestTicketAcceso_try e w b s = (r0, w0)"
    by (cases "requestTicketAcceso_try e w b s")
  from requestTicketAcceso_try_run [OF tr]
  obtain ev0 where t0: "trace w0 = trace w @ ev0" and a: "acquisitionRun e b ev0 r0" by blast
  show ?thesis
  proof (cases r0)
    case (Inl x)
    with run tr have r: "r = Inr None" and w: "w' = logErr x w0"
      by (auto simp: requestTicketAcceso_def)
    have t: "trace w' = trace w @ (ev0 @ [EvLog x])" using w t0 by (simp add: logErr_def)
    have "ticketRun e b (ev0 @ [EvLog x]) r"
      using a Inl r unfolding acquisitionRun_def ticketRun_def
      by (elim disjE conjE exE) auto
    with t r show ?thesis by blast
  next
    case (Inr t)
    with run tr have r: "r = Inr (Some t)" and w: "w' = w0"
      by (auto simp: requestTicketAcceso_def)
    have "ticketRun e b ev0 r"
      using a Inr r unfolding acquisitionRun_def ticketRun_def
      by (elim disjE conjE exE) auto
    with t0 w r show ?thesis by blast
  qed
qed

lemma saveTicketToDisk_trace: "saveTicketToDisk e w f t = (r, w') \<Longrightarrow> trace w' = trace w"
  by (auto simp: saveTicketToDisk_def writeJson_def
           split: if_splits prod.splits sum.splits option.splits
           dest!: mkdirSync_trace writeFileSync_trace)

lemma request_run:
  assumes run: "getTicketAcceso_request e w b s k f = (r, w')"
  shows "\<exists>evs. trace w' = trace w @ evs \<and> ticketRun e b evs r \<and> (\<exists>t. r = Inr t)"
proof -
  obtain r0 w0 where rq: "requestTicketAcceso e w b s = (r0, w0)"
    by (cases "requestTicketAcceso e w b s")
  from requestTicketAcceso_run [OF rq]
  obtain ev0 t0 where t0: "trace w0 = trace w @ ev0" and a: "ticketRun e b ev0 r0"
    and r0: "r0 = Inr t0" by blast
  show ?thesis
  proof (cases t0)
    case None
    with run rq r0 have "r = r0" "w' = w0" by (auto simp: getTicketAcceso_request_def)
    with t0 a r0 show ?thesis by blast
  next
    case (Some t)
    let ?w2 = "w0\<lparr>ticketCache := AList.update k t (ticketCache w0)\<rparr>"
    obtain rs w3 where sv: "saveTicketToDisk e ?w2 f t = (rs, w3)"
      by (cases "saveTicketToDisk e ?w2 f t")
    have t3: "trace w3 = trace w0" using saveTicketToDisk_trace [OF sv] by simp
    from run rq r0 Some sv have r: "r = r0"
      and w: "(\<exists>x. w' = logErr x w3) \<or> w' = w3"
      by (auto simp: getTicketAcceso_request_def Let_def split: sum.splits)
    from w obtain suf where "trace w' = trace w @ (ev0 @ suf)" and "lookups suf = []" "posts suf = []"
      using t3 t0 by (auto simp: logErr_def)
    moreover from this a have "ticketRun e b (ev0 @ suf) r0" by (auto intro: ticketRun_post)
    ultimately show ?thesis using r r0 by blast
  qed
qed

lemma getTicketAcceso_run:
  assumes run: "getTicketAcceso e w b s = (r, w')"
  shows "\<exists>evs. trace w' = trace w @ evs \<and> ticketRun e b evs r \<and> (\<exists>t. r = Inr t)"
proof -
  let ?k = "cacheKeyOf b s" let ?f = "cacheFileOf e ?k"
  obtain m w1 where mem: "getTicketAcceso_memory e w ?k = (m, w1)"
    by (cases "getTicketAcceso_memory e w ?k")
  have t1: "trace w1 = trace w" by (rule memory_trace [OF mem])
  show ?thesis
  proof (cases m)
    case (Some t)
    with run mem have "r = Inr (Some t)" "w' = w1"
      by (auto simp: getTicketAcceso_def getTicketAcceso_try_def Let_def)
    with t1 show ?thesis by (auto intro!: exI [of _ "[]"] ticketRun_quiet)
  next
    case None
    obtain d w2 where dk: "getTicketAcceso_disk e w1 ?k ?f = (d, w2)"
      by (cases "getTicketAcceso_disk e w1 ?k ?f")
    from quietRunD [OF disk_quiet [OF dk]] t1
    obtain ev2 where t2: "trace w2 = trace w @ ev2" and l2: "lookups ev2 = []" and p2: "posts ev2 = []"
      by auto
    show ?thesis
    proof (cases d)
      case (Some t)
      with run mem None dk have "r = Inr (Some t)" "w' = w2"
        by (auto simp: getTicketAcceso_def getTicketAcceso_try_def Let_def)
      with t2 l2 p2 show ?thesis by (auto intro: ticketRun_quiet)
    next
      case dNone: None
      obtain r3 w3 where rq: "getTicketAcceso_request e w2 b s ?k ?f = (r3, w3)"
        by (cases "getTicketAcceso_request e w2 b s ?k ?f")
      from request_run [OF rq]
      obtain ev3 t3 where t3: "trace w3 = trace w2 @ ev3" and a: "ticketRun e b ev3 r3"
        and r3: "r3 = Inr t3" by blast
      from run mem None dk dNone rq r3 have "r = r3" "w' = w3"
        by (auto simp: getTicketAcceso_def getTicketAcceso_try_def Let_def)
      moreover have "trace w3 = trace w @ (ev2 @ ev3)" using t3 t2 by simp
      moreover have "ticketRun e b (ev2 @ ev3) r3" using a l2 p2 by (rule ticketRun_pre [rotated 2])
      ultimately show ?thesis using r3 by blast
    qed
  qed
qed

lemma newEvents_eq: "trace w' = trace w @ evs \<Longrightarrow> newEvents w w' = evs"
  by (simp add: newEvents_def)

lemma in_lookups: "EvLookup b f \<in> set evs \<Longrightarrow> EvLookup b f \<in> set (lookups evs)"
  by (simp add: lookups_def)

lemma in_posts: "EvPost x \<in> set evs \<Longrightarrow> EvPost x \<in> set (posts evs)"
  by (simp add: posts_def)


section \<open>Cache keys and file names\<close>

lemma digit_cases:
  "d < 10 \<Longrightarrow> d = 0 \<or> d = 1 \<or> d = 2 \<or> d = 3 \<or> d = 4 \<or> d = 5 \<or> d = 6 \<or> d = 7 \<or> d = 8 \<or> d = (9::nat)"
  by arith

lemma digitChar_isDigit: "d < 10 \<Longrightarrow> isDigit (digitChar d)"
  by (drule digit_cases) (auto simp: digitChar_def isDigit_def)


lemma natDigits_digits: "list_all isDigit (natDigits n)"
proof (induction n rule: natDigits.induct)
  case (1 n)
  show ?case
  proof (cases "n < 10")
    case True
    then show ?thesis by (subst natDigits.simps) (simp add: digitChar_isDigit)
  next
    case False
    with 1 show ?thesis by (subst natDigits.simps) (simp add: digitChar_isDigit)
  qed
qed











section \<open>Evaluating the model on the concrete inputs\<close>

lemmas key_defs = cacheKeyOf_def cacheFileOf_def pathJoin_def certDirOf_def showInt_def
  natDigits.simps digitChar_def

lemmas run_defs =
  getTicketAcceso_def getTicketAcceso_try_def getTicketAcceso_memory_def getTicketAcceso_disk_def
  getTicketAcceso_diskTry_def getTicketAcceso_request_def requestTicketAcceso_def
  requestTicketAcceso_try_def getCertificateInfo_def getCertificateInfo_try_def
  getCertificateInfo_load_def existsSync_def readFileSync_def logErr_def optDate_def
  isTicketValid_def newDate_def generateTRA_def signTRA_def signTRA_try_def
  readCertificate_def readPrivateKey_def sendToAFIP_eq sendOutcome_def responseDataOf_def
  parseResponse_def parseResponse_try_def classifyFault_def jsOr_def Let_def

lemmas clear_defs =
  clearCache_def truthyId_def truthyService_def clearCache_key_def clearCache_business_def
  clearCache_all_def unlinkIfExists_def unlinkSync_def existsSync_def readdirSync_def
  childName_def startsWith_def endsWith_def List.map_filter_def AList.delete_eq Let_def




section \<open>The branches of clearCache\<close>

lemma map_of_absent: "p \<notin> fst ` set xs \<Longrightarrow> map_of xs p = None"
  by (simp add: map_of_eq_None_iff)

lemma unlinkSync_frame:
  assumes "unlinkSync e w f = (r, w')"
  shows "ticketCache w' = ticketCache w \<and> certsCache w' = certsCache w \<and> dirs w' = dirs w
    \<and> trace w' = trace w \<and> tick w' = tick w
    \<and> (\<forall>p. p \<noteq> f \<longrightarrow> map_of (files w') p = map_of (files w) p)
    \<and> (r = Inr () \<longrightarrow> map_of (files w') f = None)
    \<and> (\<forall>p. map_of (files w) p = None \<longrightarrow> map_of (files w') p = None)"
  using assms by (auto simp: unlinkSync_def delete_conv' split: if_splits)




lemma clearCache_zero_eq:
  "clearCache e w (Some 0) serviceOpt = clearCache_all e w"
  by (simp add: clearCache_def truthyId_def)

lemma clearCache_none_eq:
  "clearCache e w None serviceOpt = clearCache_all e w"
  by (simp add: clearCache_def truthyId_def)

section \<open>The fast tier and the safety margin: claim C1\<close>

lemma map_of_delete_same: "map_of (AList.delete k xs) k = None"
  by (simp add: delete_conv')

lemma memory_hit:
  "map_of (ticketCache w) k = Some t \<Longrightarrow> specUsable t (clock e (tick w)) \<Longrightarrow>
   getTicketAcceso_memory e w k = (Some t, w\<lparr>tick := Suc (tick w)\<rparr>)"
  by (simp add: getTicketAcceso_memory_def isTicketValid_eq)

lemma memory_stale:
  "map_of (ticketCache w) k = Some t \<Longrightarrow> \<not> specUsable t (clock e (tick w)) \<Longrightarrow>
   getTicketAcceso_memory e w k =
     (None, w\<lparr>tick := Suc (tick w), ticketCache := AList.delete k (ticketCache w)\<rparr>)"
  by (simp add: getTicketAcceso_memory_def isTicketValid_eq)

lemma memory_absent:
  "map_of (ticketCache w) k = None \<Longrightarrow> getTicketAcceso_memory e w k = (None, w)"
  by (simp add: getTicketAcceso_memory_def)

text \<open>
  C1. Let the fast tier hold the ticket \<open>t\<close> for the key of \<open>(b, service)\<close>, and let \<open>now\<close> be
  the time \<open>getTicketAcceso\<close> reads. The fast tier returns \<open>t\<close> if and only if
  \<open>expirationTime - 5 min > now\<close>; then \<open>getTicketAcceso\<close> returns \<open>t\<close> and does nothing
  else. Otherwise (5 minutes or less remaining, or an invalid date) the entry is removed
  from the fast tier and the call goes on exactly as a call on the state without the
  entry.
\<close>

theorem C1_ticket_usable_iff_margin:
  assumes "map_of (ticketCache w) (cacheKeyOf b service) = Some t"
  shows "(fst (getTicketAcceso_memory e w (cacheKeyOf b service)) = Some t
            \<longleftrightarrow> specUsable t (clock e (tick w)))
    \<and> (specUsable t (clock e (tick w)) \<longrightarrow>
          getTicketAcceso e w b service = (Inr (Some t), w\<lparr>tick := Suc (tick w)\<rparr>))
    \<and> (\<not> specUsable t (clock e (tick w)) \<longrightarrow>
          (let w' = w\<lparr>tick := Suc (tick w),
                      ticketCache := AList.delete (cacheKeyOf b service) (ticketCache w)\<rparr>
           in getTicketAcceso_memory e w (cacheKeyOf b service) = (None, w')
              \<and> map_of (ticketCache w') (cacheKeyOf b service) = None
              \<and> getTicketAcceso e w b service = getTicketAcceso e w' b service))"
proof (cases "specUsable t (clock e (tick w))")
  case True
  from memory_hit [OF assms True] show ?thesis
    using True by (simp add: getTicketAcceso_def getTicketAcceso_try_def)
next
  case False
  let ?k = "cacheKeyOf b service"
  let ?w' = "w\<lparr>tick := Suc (tick w), ticketCache := AList.delete ?k (ticketCache w)\<rparr>"
  have m: "getTicketAcceso_memory e w ?k = (None, ?w')" by (rule memory_stale [OF assms False])
  have a: "map_of (ticketCache ?w') ?k = None" by (simp add: map_of_delete_same)
  have m': "getTicketAcceso_memory e ?w' ?k = (None, ?w')" by (rule memory_absent [OF a])
  have "getTicketAcceso e w b service = getTicketAcceso e ?w' b service"
    unfolding getTicketAcceso_def getTicketAcceso_try_def Let_def m m' by simp
  with m a False show ?thesis by (simp add: Let_def)
qed

theorem C1_ticket_usable_iff_margin_witness:
  "getTicketAcceso env0 worldTickets 1 ''wsfe'' = (Inr (Some ticketFresh), worldTickets\<lparr>tick := 1\<rparr>)
   \<and> getTicketAcceso_memory env0 worldTickets (cacheKeyOf 1 ''ws_sr_padron_a5'') =
       (None, worldTickets\<lparr>tick := 1,
                ticketCache := [(''1_wsfe'', ticketFresh), (''2_wsfe'', ticketFresh)]\<rparr>)"
proof -
  have f: "map_of (ticketCache worldTickets) (cacheKeyOf 1 ''wsfe'') = Some ticketFresh"
    by (simp add: worldTickets_def key_defs)
  have s: "map_of (ticketCache worldTickets) (cacheKeyOf 1 ''ws_sr_padron_a5'') = Some ticketStale"
    by (simp add: worldTickets_def key_defs)
  have uf: "specUsable ticketFresh (clock env0 (tick worldTickets))"
    by (simp add: specUsable_def safetyMargin_def ticketFresh_def env0_def)
  have us: "\<not> specUsable ticketStale (clock env0 (tick worldTickets))"
    by (simp add: specUsable_def safetyMargin_def ticketStale_def env0_def)
  have d: "AList.delete (cacheKeyOf 1 ''ws_sr_padron_a5'') (ticketCache worldTickets)
             = [(''1_wsfe'', ticketFresh), (''2_wsfe'', ticketFresh)]"
    by (simp add: worldTickets_def key_defs AList.delete_eq)
  have t: "tick worldTickets = 0" by (simp add: worldTickets_def)
  show ?thesis
    using C1_ticket_usable_iff_margin [OF f, of env0] C1_ticket_usable_iff_margin [OF s, of env0]
          uf us d t
    by (simp add: Let_def)
qed

section \<open>No certificate, no network call: claim C3\<close>

lemma requestTicketAcceso_no_certificate:
  assumes "getCertificateInfo e w b = (Inr None, w0)"
  shows "requestTicketAcceso e w b service =
           (Inr None, w0\<lparr>trace := trace w0 @ [EvLookup b False, EvLog (NoCertificateFound b)]\<rparr>)"
  using assms by (simp add: requestTicketAcceso_def requestTicketAcceso_try_def logErr_def)

text \<open>
  C3. For every tenant \<open>b\<close> and target service: a run of \<open>getTicketAcceso\<close> in which the
  certificate store is asked and reports no certificate returns \<open>null\<close>, logs
  "No certificate found for business b", and makes no network call. The acquisition
  \<open>requestTicketAcceso\<close> itself, started in any state whose lookup reports no certificate,
  returns \<open>null\<close> right after the lookup, with that log line and nothing else. And when
  both tiers miss and the lookup then reports no certificate, that is the whole run of
  \<open>getTicketAcceso\<close>.
\<close>

theorem C3_no_certificate_no_network:
  "(getTicketAcceso e w b service = (r, w') \<and> EvLookup b False \<in> set (newEvents w w') \<longrightarrow>
      r = Inr None
      \<and> EvLog (NoCertificateFound b) \<in> set (newEvents w w')
      \<and> posts (newEvents w w') = [])
   \<and> (getCertificateInfo e w b = (Inr None, w0) \<longrightarrow>
      requestTicketAcceso e w b service =
        (Inr None, w0\<lparr>trace := trace w0 @ [EvLookup b False, EvLog (NoCertificateFound b)]\<rparr>)
      \<and> posts (newEvents w0 (snd (requestTicketAcceso e w b service))) = [])
   \<and> (getTicketAcceso_memory e w (cacheKeyOf b service) = (None, w1)
       \<and> getTicketAcceso_disk e w1 (cacheKeyOf b service) (cacheFileOf e (cacheKeyOf b service))
            = (None, w2)
       \<and> getCertificateInfo e w2 b = (Inr None, w3) \<longrightarrow>
      getTicketAcceso e w b service =
        (Inr None, w3\<lparr>trace := trace w3 @ [EvLookup b False, EvLog (NoCertificateFound b)]\<rparr>))"
proof (intro conjI impI)
  assume h: "getTicketAcceso e w b service = (r, w') \<and> EvLookup b False \<in> set (newEvents w w')"
  then have run: "getTicketAcceso e w b service = (r, w')"
    and lk: "EvLookup b False \<in> set (newEvents w w')" by simp_all
  from getTicketAcceso_run [OF run]
  obtain evs where t: "trace w' = trace w @ evs" and a: "ticketRun e b evs r" by blast
  have n: "newEvents w w' = evs" by (rule newEvents_eq [OF t])
  from lk n have "EvLookup b False \<in> set (lookups evs)" by (simp add: in_lookups)
  with a have "r = Inr None \<and> posts evs = [] \<and> EvLog (NoCertificateFound b) \<in> set evs"
    unfolding ticketRun_def by (elim disjE conjE exE) auto
  with n show "r = Inr None" and "EvLog (NoCertificateFound b) \<in> set (newEvents w w')"
    and "posts (newEvents w w') = []" by simp_all
next
  assume g: "getCertificateInfo e w b = (Inr None, w0)"
  show "requestTicketAcceso e w b service =
        (Inr None, w0\<lparr>trace := trace w0 @ [EvLookup b False, EvLog (NoCertificateFound b)]\<rparr>)"
    by (rule requestTicketAcceso_no_certificate [OF g])
  then show "posts (newEvents w0 (snd (requestTicketAcceso e w b service))) = []"
    by (simp add: newEvents_def)
next
  assume "getTicketAcceso_memory e w (cacheKeyOf b service) = (None, w1)
       \<and> getTicketAcceso_disk e w1 (cacheKeyOf b service) (cacheFileOf e (cacheKeyOf b service))
            = (None, w2)
       \<and> getCertificateInfo e w2 b = (Inr None, w3)"
  then show "getTicketAcceso e w b service =
        (Inr None, w3\<lparr>trace := trace w3 @ [EvLookup b False, EvLog (NoCertificateFound b)]\<rparr>)"
    by (simp add: getTicketAcceso_def getTicketAcceso_try_def getTicketAcceso_request_def
                  requestTicketAcceso_no_certificate Let_def)
qed

theorem C3_no_certificate_no_network_witness:
  "getTicketAcceso env0 world0 7 ''wsfe'' =
     (Inr None, world0\<lparr>trace := [EvLookup 7 False, EvLog (NoCertificateFound 7)]\<rparr>)
   \<and> posts (newEvents world0 (world0\<lparr>trace := [EvLookup 7 False, EvLog (NoCertificateFound 7)]\<rparr>)) = []
   \<and> requestTicketAcceso env0 world0 7 ''wsfe'' =
     (Inr None, world0\<lparr>trace := [EvLookup 7 False, EvLog (NoCertificateFound 7)]\<rparr>)"
proof -
  let ?w' = "world0\<lparr>trace := [EvLookup 7 False, EvLog (NoCertificateFound 7)]\<rparr>"
  have run: "getTicketAcceso env0 world0 7 ''wsfe'' = (Inr None, ?w')"
    by (simp add: run_defs key_defs env0_def world0_def)
  have lk: "EvLookup 7 False \<in> set (newEvents world0 ?w')"
    by (simp add: newEvents_def world0_def)
  have g: "getCertificateInfo env0 world0 7 = (Inr None, world0)"
    by (simp add: run_defs key_defs env0_def world0_def)
  have t: "trace world0 = []" by (simp add: world0_def)
  have m: "getTicketAcceso_memory env0 world0 (cacheKeyOf 7 ''wsfe'') = (None, world0)"
    by (simp add: getTicketAcceso_memory_def world0_def)
  have d: "getTicketAcceso_disk env0 world0 (cacheKeyOf 7 ''wsfe'')
             (cacheFileOf env0 (cacheKeyOf 7 ''wsfe'')) = (None, world0)"
    by (simp add: getTicketAcceso_disk_def existsSync_def world0_def)
  show ?thesis
    using C3_no_certificate_no_network
            [of env0 world0 7 "''wsfe''" "Inr None" ?w' world0 world0 world0 world0] run lk g t m d
    by simp
qed

section \<open>A ticket that exists at the authority: claim C6\<close>

text \<open>
  C6 as stated fails: the authority's answer is a SOAP fault whose text contains
  "ya posee un TA valido", delivered as a response (no HTTP error); \<open>parseResponse\<close> has
  no case for it, so the error is the generic "AFIP WSAA Fault: ..." and not the one
  about the ticket that expires within 12 hours.
\<close>

theorem C6_fault_in_response_counterexample:
  "strIncludes ''El CEE ya posee un TA valido para el acceso al WSN solicitado'' ''ya posee un TA valido''
   \<and> fst (getTicketAcceso envFault worldCert 7 ''wsfe'') = Inr None
   \<and> EvLog AfipTicketYaCacheado \<notin> set (trace (snd (getTicketAcceso envFault worldCert 7 ''wsfe'')))
   \<and> EvLog (WsaaFault (JStr ''El CEE ya posee un TA valido para el acceso al WSN solicitado''))
        \<in> set (trace (snd (getTicketAcceso envFault worldCert 7 ''wsfe'')))"
  by (simp add: run_defs key_defs envFault_def env0_def worldCert_def faultDoc_def startsWith_def)

text \<open>
  C6, amended. In every run of \<open>getTicketAcceso\<close> that posts a request to which the
  transport answers with an HTTP error response whose body (the string, or its
  \<open>JSON.stringify\<close>), cut to its first 1000 characters, contains "ya posee un TA valido":
  the result is \<open>null\<close>, the error logged is the one that says the authority already holds
  a ticket which expires within 12 hours (\<open>AfipTicketYaCacheado\<close>), and that post is the
  only network call of the run (no retry).
\<close>

theorem C6_already_issued:
  assumes run: "getTicketAcceso e w b service = (r, w')"
    and post: "EvPost body \<in> set (newEvents w w')"
    and resp: "axiosPost e (wsaaUrl e) body = AxiosHttpError status statusText d"
    and data: "responseDataOf e d = Inr responseData"
    and ind: "strIncludes responseData ''ya posee un TA valido''"
  shows "r = Inr None
    \<and> EvLog AfipTicketYaCacheado \<in> set (newEvents w w')
    \<and> posts (newEvents w w') = [EvPost body]"
proof -
  from getTicketAcceso_run [OF run]
  obtain evs where t: "trace w' = trace w @ evs" and a: "ticketRun e b evs r" by blast
  have n: "newEvents w w' = evs" by (rule newEvents_eq [OF t])
  have so: "sendOutcome e body = Inl AfipTicketYaCacheado"
    using resp data ind by (simp add: sendOutcome_def)
  from post n have "EvPost body \<in> set (posts evs)" by (simp add: in_posts)
  with a so have "r = Inr None \<and> posts evs = [EvPost body] \<and> EvLog AfipTicketYaCacheado \<in> set evs"
    unfolding ticketRun_def by (elim disjE conjE exE) auto
  with n show ?thesis by simp
qed

theorem C6_already_issued_witness:
  "fst (getTicketAcceso envAlready worldCert 7 ''wsfe'') = Inr None
   \<and> EvLog AfipTicketYaCacheado
        \<in> set (newEvents worldCert (snd (getTicketAcceso envAlready worldCert 7 ''wsfe'')))
   \<and> posts (newEvents worldCert (snd (getTicketAcceso envAlready worldCert 7 ''wsfe'')))
        = [EvPost (soapRequestOf ''CMS'')]"
proof -
  let ?d = "JStr ''<faultstring>El CEE ya posee un TA valido para el acceso al WSN solicitado</faultstring>''"
  have run: "getTicketAcceso envAlready worldCert 7 ''wsfe'' =
      (fst (getTicketAcceso envAlready worldCert 7 ''wsfe''),
       snd (getTicketAcceso envAlready worldCert 7 ''wsfe''))" by simp
  have post: "EvPost (soapRequestOf ''CMS'')
      \<in> set (newEvents worldCert (snd (getTicketAcceso envAlready worldCert 7 ''wsfe'')))"
    by (simp add: run_defs key_defs envAlready_def env0_def worldCert_def newEvents_def startsWith_def)
  have resp: "axiosPost envAlready (wsaaUrl envAlready) (soapRequestOf ''CMS'')
      = AxiosHttpError 500 ''Internal Server Error'' ?d"
    by (simp add: envAlready_def)
  have data: "responseDataOf envAlready ?d =
      Inr ''<faultstring>El CEE ya posee un TA valido para el acceso al WSN solicitado</faultstring>''"
    by (simp add: responseDataOf_def)
  have ind: "strIncludes
      ''<faultstring>El CEE ya posee un TA valido para el acceso al WSN solicitado</faultstring>''
      ''ya posee un TA valido''"
    by (simp add: startsWith_def)
  show ?thesis
    by (rule C6_already_issued [OF run post resp data ind])
qed

section \<open>Two lookups in a row: claim C9\<close>








section \<open>The CUIT of a certificate: claim C5\<close>








section \<open>Clearing one key: claim C7\<close>




section \<open>Clearing a tenant: claim C8\<close>


text \<open>
  The keys of the sweep come from the fast tier alone: a durable record whose key is not
  in memory (as after a restart) is not looked for, and stays.
\<close>

lemma clearCache_business_leaves_orphan:
  "clearCache env0 (worldTickets\<lparr>ticketCache := []\<rparr>) (Some 1) None =
     (Inr (), worldTickets\<lparr>ticketCache := []\<rparr>)"
  by (simp add: clear_defs key_defs env0_def worldTickets_def)




section \<open>The tenant id 0: claim C10\<close>

lemma clearFiles_frame:
  "clearFiles e w names = (r, w') \<Longrightarrow>
    ticketCache w' = ticketCache w
    \<and> (\<forall>p. map_of (files w) p = None \<longrightarrow> map_of (files w') p = None)
    \<and> (r = Inr () \<longrightarrow> (\<forall>n \<in> set names. startsWith n ''ta_'' \<and> endsWith n ''.json'' \<longrightarrow>
                            map_of (files w') (pathJoin (cacheDir e) n) = None))"
proof (induction names arbitrary: w)
  case Nil
  then show ?case by simp
next
  case (Cons f fs)
  show ?case
  proof (cases "startsWith f ''ta_'' \<and> endsWith f ''.json''")
    case False
    with Cons.prems have "clearFiles e w fs = (r, w')" by auto
    from Cons.IH [OF this] False show ?thesis by auto
  next
    case True
    obtain r1 w1 where u: "unlinkSync e w (pathJoin (cacheDir e) f) = (r1, w1)"
      by (cases "unlinkSync e w (pathJoin (cacheDir e) f)")
    note fr = unlinkSync_frame [OF u]
    show ?thesis
    proof (cases r1)
      case (Inl x)
      with Cons.prems u True have "r = Inl x" "w' = w1" by simp_all
      with fr show ?thesis by auto
    next
      case (Inr v)
      with Cons.prems u True have rest: "clearFiles e w1 fs = (r, w')" by simp
      note ih = Cons.IH [OF rest]
      have f1: "r1 = Inr ()" using Inr by simp
      have a: "ticketCache w' = ticketCache w" using ih fr by simp
      have b: "\<forall>p. map_of (files w) p = None \<longrightarrow> map_of (files w') p = None" using ih fr by auto
      have c: "r = Inr () \<longrightarrow> (\<forall>n \<in> set (f # fs). startsWith n ''ta_'' \<and> endsWith n ''.json'' \<longrightarrow>
                            map_of (files w') (pathJoin (cacheDir e) n) = None)"
        using ih fr f1 by auto
      from a b c show ?thesis by blast
    qed
  qed
qed

lemma childName_join:
  "n \<noteq> [] \<Longrightarrow> CHR ''/'' \<notin> set n \<Longrightarrow> childName d (pathJoin d n) = Some n"
  by (simp add: childName_def pathJoin_def startsWith_def Let_def)

lemma readdir_lists:
  assumes "readdirSync e w d = Inr names" and "map_of (files w) (pathJoin d n) \<noteq> None"
    and "n \<noteq> []" and "CHR ''/'' \<notin> set n"
  shows "n \<in> set names"
proof -
  from assms(1) have names: "names = List.map_filter (childName d) (map fst (files w) @ dirs w)"
    by (auto simp: readdirSync_def split: if_splits)
  from assms(2) have "pathJoin d n \<in> set (map fst (files w) @ dirs w)"
    by (auto simp: map_of_eq_None_iff)
  with childName_join [OF assms(3,4), of d] show ?thesis
    unfolding names by (force simp: List.map_filter_def)
qed

lemma slash_notin_showInt: "CHR ''/'' \<notin> set (showInt b)"
proof -
  have "\<not> isDigit CHR ''/''" by (simp add: isDigit_def)
  then have "\<And>n. CHR ''/'' \<notin> set (natDigits n)"
    using natDigits_digits by (auto simp: list_all_iff)
  then show ?thesis by (simp add: showInt_def)
qed

lemma ticketFile_name:
  "cacheFileOf e (cacheKeyOf b s) = pathJoin (cacheDir e) (''ta_'' @ cacheKeyOf b s @ ''.json'')"
  "startsWith (''ta_'' @ cacheKeyOf b s @ ''.json'') ''ta_''"
  "endsWith (''ta_'' @ cacheKeyOf b s @ ''.json'') ''.json''"
  "CHR ''/'' \<notin> set s \<Longrightarrow> CHR ''/'' \<notin> set (''ta_'' @ cacheKeyOf b s @ ''.json'')"
  by (simp_all add: cacheFileOf_def startsWith_def endsWith_def cacheKeyOf_def slash_notin_showInt)

lemma clearCache_all_clears:
  assumes run: "clearCache_all e w = (Inr (), w')"
  shows "ticketCache w' = []
    \<and> (cacheDir e \<in> set (dirs w) \<longrightarrow>
        (\<forall>b s. CHR ''/'' \<notin> set s \<longrightarrow> map_of (files w') (cacheFileOf e (cacheKeyOf b s)) = None))"
proof (intro conjI impI allI)
  let ?w1 = "w\<lparr>ticketCache := []\<rparr>"
  show "ticketCache w' = []"
    using run
    by (auto simp: clearCache_all_def Let_def split: if_splits sum.splits dest!: clearFiles_frame)
  fix b s
  assume d: "cacheDir e \<in> set (dirs w)" and ns: "CHR ''/'' \<notin> set s"
  then have ex: "existsSync ?w1 (cacheDir e)" by (simp add: existsSync_def)
  with run obtain names where rd: "readdirSync e ?w1 (cacheDir e) = Inr names"
    and cf: "clearFiles e ?w1 names = (Inr (), w')"
    by (auto simp: clearCache_all_def Let_def split: sum.splits)
  note fr = clearFiles_frame [OF cf]
  let ?n = "''ta_'' @ cacheKeyOf b s @ ''.json''"
  show "map_of (files w') (cacheFileOf e (cacheKeyOf b s)) = None"
  proof (cases "map_of (files w) (pathJoin (cacheDir e) ?n)")
    case None
    with fr show ?thesis by (simp add: ticketFile_name(1))
  next
    case (Some c)
    then have "map_of (files ?w1) (pathJoin (cacheDir e) ?n) \<noteq> None" by simp
    from readdir_lists [OF rd this] ticketFile_name(4) [OF ns]
    have "?n \<in> set names" by simp
    with fr ticketFile_name(2,3) [of b s] show ?thesis
      by (simp add: ticketFile_name(1))
  qed
qed

text \<open>
  C10. \<open>clearCache\<close> with the tenant id 0, with or without a target service, is the call
  with no argument: the tenant id is tested for its truth value, 0 is false, and the
  branch that clears everything runs. When it returns, the fast tier is empty and, the
  cache directory being there, no ticket file of any tenant is left in it (for every
  tenant and every service whose name has no path separator).
\<close>

theorem C10_tenant_zero_clears_all:
  "clearCache e w (Some 0) serviceOpt = clearCache e w None None
   \<and> (clearCache e w (Some 0) serviceOpt = (Inr (), w') \<longrightarrow>
        ticketCache w' = []
        \<and> (cacheDir e \<in> set (dirs w) \<longrightarrow>
            (\<forall>b s. CHR ''/'' \<notin> set s \<longrightarrow> map_of (files w') (cacheFileOf e (cacheKeyOf b s)) = None)))"
  using clearCache_all_clears [of e w w']
  by (simp add: clearCache_zero_eq clearCache_none_eq)

theorem C10_tenant_zero_clears_all_witness:
  "clearCache env0 worldTickets (Some 0) None =
     (Inr (), worldTickets\<lparr>ticketCache := [], files := []\<rparr>)
   \<and> map_of (files worldTickets) (cacheFileOf env0 (cacheKeyOf 2 ''wsfe'')) = Some ''TICKET''
   \<and> map_of (files (worldTickets\<lparr>ticketCache := [], files := []\<rparr>))
        (cacheFileOf env0 (cacheKeyOf 2 ''wsfe'')) = None"
proof -
  let ?w' = "worldTickets\<lparr>ticketCache := [], files := []\<rparr>"
  have run: "clearCache env0 worldTickets (Some 0) None = (Inr (), ?w')"
    by (simp add: clear_defs key_defs env0_def worldTickets_def)
  have d: "cacheDir env0 \<in> set (dirs worldTickets)" by (simp add: env0_def worldTickets_def)
  have n: "CHR ''/'' \<notin> set ''wsfe''" by simp
  have v: "map_of (files worldTickets) (cacheFileOf env0 (cacheKeyOf 2 ''wsfe'')) = Some ''TICKET''"
    by (simp add: worldTickets_def key_defs env0_def)
  note th = C10_tenant_zero_clears_all [of env0 worldTickets None ?w']
  note cleared = th [THEN conjunct2, rule_format, OF run, THEN conjunct2, rule_format, OF d n]
  show ?thesis
    using run v cleared by (intro conjI)
qed

section \<open>Failures at the boundary: claim C4\<close>










end
